theory Spec2Isabelle
  imports Main "HOL-Library.Word"
begin

unbundle bit_operations_syntax

section \<open>The NV flash-configuration register map (MK64F12\_nv.h)\<close>

text \<open>
  The header is a list of preprocessor constants and type declarations. The constants
  carry the suffix \<open>U\<close>, so they are values of type \<open>unsigned int\<close>, which is 32 bits
  wide on this Cortex-M4 target: they are embedded as \<open>32 word\<close>.
\<close>

type_synonym uint32_t = "32 word"

definition REGS_NV_BASE :: uint32_t where
  "REGS_NV_BASE = 0x400"

subsection \<open>Register addresses\<close>

definition HW_NV_BACKKEY3_ADDR :: uint32_t where "HW_NV_BACKKEY3_ADDR = REGS_NV_BASE + 0x0"
definition HW_NV_BACKKEY2_ADDR :: uint32_t where "HW_NV_BACKKEY2_ADDR = REGS_NV_BASE + 0x1"
definition HW_NV_BACKKEY1_ADDR :: uint32_t where "HW_NV_BACKKEY1_ADDR = REGS_NV_BASE + 0x2"
definition HW_NV_BACKKEY0_ADDR :: uint32_t where "HW_NV_BACKKEY0_ADDR = REGS_NV_BASE + 0x3"
definition HW_NV_BACKKEY7_ADDR :: uint32_t where "HW_NV_BACKKEY7_ADDR = REGS_NV_BASE + 0x4"
definition HW_NV_BACKKEY6_ADDR :: uint32_t where "HW_NV_BACKKEY6_ADDR = REGS_NV_BASE + 0x5"
definition HW_NV_BACKKEY5_ADDR :: uint32_t where "HW_NV_BACKKEY5_ADDR = REGS_NV_BASE + 0x6"
definition HW_NV_BACKKEY4_ADDR :: uint32_t where "HW_NV_BACKKEY4_ADDR = REGS_NV_BASE + 0x7"
definition HW_NV_FPROT3_ADDR :: uint32_t where "HW_NV_FPROT3_ADDR = REGS_NV_BASE + 0x8"
definition HW_NV_FPROT2_ADDR :: uint32_t where "HW_NV_FPROT2_ADDR = REGS_NV_BASE + 0x9"
definition HW_NV_FPROT1_ADDR :: uint32_t where "HW_NV_FPROT1_ADDR = REGS_NV_BASE + 0xA"
definition HW_NV_FPROT0_ADDR :: uint32_t where "HW_NV_FPROT0_ADDR = REGS_NV_BASE + 0xB"
definition HW_NV_FSEC_ADDR :: uint32_t where "HW_NV_FSEC_ADDR = REGS_NV_BASE + 0xC"
definition HW_NV_FOPT_ADDR :: uint32_t where "HW_NV_FOPT_ADDR = REGS_NV_BASE + 0xD"
definition HW_NV_FEPROT_ADDR :: uint32_t where "HW_NV_FEPROT_ADDR = REGS_NV_BASE + 0xE"
definition HW_NV_FDPROT_ADDR :: uint32_t where "HW_NV_FDPROT_ADDR = REGS_NV_BASE + 0xF"

subsection \<open>Register types\<close>

text \<open>
  Every register type is a union of a \<open>uint8_t U\<close> and a struct \<open>B\<close> of \<open>uint8_t\<close>
  bit-fields. A bit-field struct is embedded as the list of its members, name and width in
  bits, in declaration order. Bit-fields are allocated from bit 0 upwards, as the
  \<open>[hi:lo]\<close> comments of the header say, so a member starts at the sum of the widths
  before it.
\<close>

type_synonym bitfields = "(string \<times> nat) list"

definition hw_nv_backkey3_bitfields :: bitfields where "hw_nv_backkey3_bitfields = [(''KEY'', 8)]"
definition hw_nv_backkey2_bitfields :: bitfields where "hw_nv_backkey2_bitfields = [(''KEY'', 8)]"
definition hw_nv_backkey1_bitfields :: bitfields where "hw_nv_backkey1_bitfields = [(''KEY'', 8)]"
definition hw_nv_backkey0_bitfields :: bitfields where "hw_nv_backkey0_bitfields = [(''KEY'', 8)]"
definition hw_nv_backkey7_bitfields :: bitfields where "hw_nv_backkey7_bitfields = [(''KEY'', 8)]"
definition hw_nv_backkey6_bitfields :: bitfields where "hw_nv_backkey6_bitfields = [(''KEY'', 8)]"
definition hw_nv_backkey5_bitfields :: bitfields where "hw_nv_backkey5_bitfields = [(''KEY'', 8)]"
definition hw_nv_backkey4_bitfields :: bitfields where "hw_nv_backkey4_bitfields = [(''KEY'', 8)]"
definition hw_nv_fprot3_bitfields :: bitfields where "hw_nv_fprot3_bitfields = [(''PROT'', 8)]"
definition hw_nv_fprot2_bitfields :: bitfields where "hw_nv_fprot2_bitfields = [(''PROT'', 8)]"
definition hw_nv_fprot1_bitfields :: bitfields where "hw_nv_fprot1_bitfields = [(''PROT'', 8)]"
definition hw_nv_fprot0_bitfields :: bitfields where "hw_nv_fprot0_bitfields = [(''PROT'', 8)]"
definition hw_nv_fsec_bitfields :: bitfields where
  "hw_nv_fsec_bitfields = [(''SEC'', 2), (''FSLACC'', 2), (''MEEN'', 2), (''KEYEN'', 2)]"
definition hw_nv_fopt_bitfields :: bitfields where
  "hw_nv_fopt_bitfields = [(''LPBOOT'', 1), (''EZPORT_DIS'', 1), (''RESERVED0'', 6)]"
definition hw_nv_feprot_bitfields :: bitfields where "hw_nv_feprot_bitfields = [(''EPROT'', 8)]"
definition hw_nv_fdprot_bitfields :: bitfields where "hw_nv_fdprot_bitfields = [(''DPROT'', 8)]"

text \<open>The first bit of every member and the bits the struct occupies.\<close>

fun bit_positions :: "nat \<Rightarrow> bitfields \<Rightarrow> (string \<times> nat) list" where
  "bit_positions pos [] = []"
| "bit_positions pos ((name, width) # fs) = (name, pos) # bit_positions (pos + width) fs"

definition bitfields_bits :: "bitfields \<Rightarrow> nat" where
  "bitfields_bits fs = sum_list (map snd fs)"

text \<open>
  \<open>sizeof\<close> of a register union, in bytes: the larger of its two members, where \<open>U\<close> is
  one byte and the bit-fields are packed into as many \<open>uint8_t\<close> units as their bits need.
\<close>

definition sizeof_uint8_t :: nat where
  "sizeof_uint8_t = 1"

definition sizeof_reg_union :: "bitfields \<Rightarrow> nat" where
  "sizeof_reg_union fs = max sizeof_uint8_t ((bitfields_bits fs + 7) div 8 * sizeof_uint8_t)"

subsection \<open>The module struct\<close>

text \<open>
  \<open>hw_nv_t\<close> is declared under \<open>#pragma pack(1)\<close>: no padding is inserted, and a member
  lies at the sum of the sizes of the members before it. A member is given by its name,
  the bit-fields of its register type and the address macro of that register.
\<close>

record nv_member =
  member_name :: string
  member_type :: bitfields
  member_addr :: uint32_t

definition hw_nv_t :: "nv_member list" where
  "hw_nv_t =
    [\<lparr>member_name = ''BACKKEY3'', member_type = hw_nv_backkey3_bitfields, member_addr = HW_NV_BACKKEY3_ADDR\<rparr>,
     \<lparr>member_name = ''BACKKEY2'', member_type = hw_nv_backkey2_bitfields, member_addr = HW_NV_BACKKEY2_ADDR\<rparr>,
     \<lparr>member_name = ''BACKKEY1'', member_type = hw_nv_backkey1_bitfields, member_addr = HW_NV_BACKKEY1_ADDR\<rparr>,
     \<lparr>member_name = ''BACKKEY0'', member_type = hw_nv_backkey0_bitfields, member_addr = HW_NV_BACKKEY0_ADDR\<rparr>,
     \<lparr>member_name = ''BACKKEY7'', member_type = hw_nv_backkey7_bitfields, member_addr = HW_NV_BACKKEY7_ADDR\<rparr>,
     \<lparr>member_name = ''BACKKEY6'', member_type = hw_nv_backkey6_bitfields, member_addr = HW_NV_BACKKEY6_ADDR\<rparr>,
     \<lparr>member_name = ''BACKKEY5'', member_type = hw_nv_backkey5_bitfields, member_addr = HW_NV_BACKKEY5_ADDR\<rparr>,
     \<lparr>member_name = ''BACKKEY4'', member_type = hw_nv_backkey4_bitfields, member_addr = HW_NV_BACKKEY4_ADDR\<rparr>,
     \<lparr>member_name = ''FPROT3'', member_type = hw_nv_fprot3_bitfields, member_addr = HW_NV_FPROT3_ADDR\<rparr>,
     \<lparr>member_name = ''FPROT2'', member_type = hw_nv_fprot2_bitfields, member_addr = HW_NV_FPROT2_ADDR\<rparr>,
     \<lparr>member_name = ''FPROT1'', member_type = hw_nv_fprot1_bitfields, member_addr = HW_NV_FPROT1_ADDR\<rparr>,
     \<lparr>member_name = ''FPROT0'', member_type = hw_nv_fprot0_bitfields, member_addr = HW_NV_FPROT0_ADDR\<rparr>,
     \<lparr>member_name = ''FSEC'', member_type = hw_nv_fsec_bitfields, member_addr = HW_NV_FSEC_ADDR\<rparr>,
     \<lparr>member_name = ''FOPT'', member_type = hw_nv_fopt_bitfields, member_addr = HW_NV_FOPT_ADDR\<rparr>,
     \<lparr>member_name = ''FEPROT'', member_type = hw_nv_feprot_bitfields, member_addr = HW_NV_FEPROT_ADDR\<rparr>,
     \<lparr>member_name = ''FDPROT'', member_type = hw_nv_fdprot_bitfields, member_addr = HW_NV_FDPROT_ADDR\<rparr>]"

fun packed_offsets :: "nat \<Rightarrow> nv_member list \<Rightarrow> nat list" where
  "packed_offsets off [] = []"
| "packed_offsets off (m # ms) = off # packed_offsets (off + sizeof_reg_union (member_type m)) ms"

text \<open>
  \<open>HW_NV\<close> is \<open>*(hw_nv_t * ) REGS_NV_BASE\<close>: the address of a member of the overlay is the
  base plus the member's offset.
\<close>

definition HW_NV_member_addrs :: "uint32_t list" where
  "HW_NV_member_addrs = map (\<lambda>off. REGS_NV_BASE + of_nat off) (packed_offsets 0 hw_nv_t)"

subsection \<open>Bit-field constants of NV\_FSEC\<close>

definition BP_NV_FSEC_SEC :: uint32_t where "BP_NV_FSEC_SEC = 0"
definition BM_NV_FSEC_SEC :: uint32_t where "BM_NV_FSEC_SEC = 0x03"
definition BS_NV_FSEC_SEC :: uint32_t where "BS_NV_FSEC_SEC = 2"

definition BP_NV_FSEC_FSLACC :: uint32_t where "BP_NV_FSEC_FSLACC = 2"
definition BM_NV_FSEC_FSLACC :: uint32_t where "BM_NV_FSEC_FSLACC = 0x0C"
definition BS_NV_FSEC_FSLACC :: uint32_t where "BS_NV_FSEC_FSLACC = 2"

definition BP_NV_FSEC_MEEN :: uint32_t where "BP_NV_FSEC_MEEN = 4"
definition BM_NV_FSEC_MEEN :: uint32_t where "BM_NV_FSEC_MEEN = 0x30"
definition BS_NV_FSEC_MEEN :: uint32_t where "BS_NV_FSEC_MEEN = 2"

definition BP_NV_FSEC_KEYEN :: uint32_t where "BP_NV_FSEC_KEYEN = 6"
definition BM_NV_FSEC_KEYEN :: uint32_t where "BM_NV_FSEC_KEYEN = 0xC0"
definition BS_NV_FSEC_KEYEN :: uint32_t where "BS_NV_FSEC_KEYEN = 2"

text \<open>The mask a field of the given size at the given position has: size ones, shifted.\<close>

definition field_mask :: "uint32_t \<Rightarrow> uint32_t \<Rightarrow> uint32_t" where
  "field_mask pos sz = push_bit (unat pos) (2 ^ unat sz - 1)"

section \<open>The ADC driver (fsl\_adc\_driver.c)\<close>

subsection \<open>Types of the driver's interface\<close>

text \<open>
  The driver's header, the ADC hardware abstraction layer (the \<open>adc_hal_\<close> functions),
  the clock manager and the interrupt manager are not part of the sources at hand; the
  driver file only calls them. Their types are embedded as the driver uses them:
  \<^item> the three status codes the driver returns or compares with are a datatype;
  \<^item> a value of any other enumeration type is an \<open>int\<close>, as C enumerators are, and the
    enumerators the driver names are fields of the record \<open>adc_platform\<close> below;
  \<^item> a pointer argument is an \<open>option\<close>: \<open>None\<close> is \<open>NULL\<close>, \<open>Some x\<close> points to an
    object holding \<open>x\<close>;
  \<^item> a callback, a pointer to a function, is the address of the function, a \<open>uint32_t\<close>
    on this target, and \<open>NULL\<close> is the address 0: the driver tests it with \<open>if (ptr)\<close>.
\<close>

datatype adc_status_t = kStatus_ADC_Success | kStatus_ADC_InvalidArgument | kStatus_ADC_Failed

record adc_user_config_t =
  clockSourceMode :: int
  clockSourceDividerMode :: int
  resolutionMode :: int
  referenceVoltageMode :: int
  isContinuousEnabled :: bool

record adc_channel_config_t =
  channelId :: int
  isDifferentialEnabled :: bool
  isInterruptEnabled :: bool
  muxSelect :: uint32_t

record adc_calibration_param_t =
  PG :: uint32_t
  MG :: uint32_t

type_synonym adc_isr_callback_t = uint32_t

text \<open>
  The constants of the missing headers, taken as parameters: the number of ADC instances,
  the table \<open>adc_irq_ids\<close> (declared \<open>extern\<close> in the driver) and the enumerators the
  driver names.
\<close>

record adc_platform =
  HW_ADC_INSTANCE_COUNT :: uint32_t
  adc_irq_ids :: "uint32_t \<Rightarrow> int"
  kClockModuleADC :: int
  kAdcClockSourceBusClk2 :: int
  kAdcClockDivider8 :: int
  kAdcSingleDiff16 :: int
  kAdcVoltageVref :: int
  kAdcHwAverageCount32 :: int

subsection \<open>The driver's state and the calls it makes\<close>

text \<open>\<open>adc_context_t\<close>; the members \<open>muxSelect\<close> and \<open>value\<close> carry a suffix here.\<close>

record adc_context_t =
  userCallback :: adc_isr_callback_t
  muxSelect_ctx :: uint32_t
  value_ctx :: uint32_t

text \<open>
  Every call that leaves the driver is an event: one constructor per function of the HAL,
  the clock manager and the interrupt manager that the modelled functions call, with the
  arguments of the call, and one for the call of the user's callback.
\<close>

datatype hal_call =
    Clock_manager_set_gate int uint32_t bool
  | Adc_hal_set_clock_source_mode uint32_t int
  | Adc_hal_set_clock_divider_mode uint32_t int
  | Adc_hal_set_reference_voltage_mode uint32_t int
  | Adc_hal_set_resolution_mode uint32_t int
  | Adc_hal_configure_continuous_conversion uint32_t bool
  | Adc_hal_configure_hw_average uint32_t bool
  | Adc_hal_set_hw_average_mode uint32_t int
  | Adc_hal_start_calibration uint32_t
  | Adc_hal_end_calibration uint32_t
  | Adc_hal_get_calibration_PG uint32_t
  | Adc_hal_get_calibration_MG uint32_t
  | Adc_hal_set_calibration_PG uint32_t uint32_t
  | Adc_hal_set_calibration_MG uint32_t uint32_t
  | Adc_hal_get_conversion_value uint32_t uint32_t
  | Adc_hal_is_conversion_completed uint32_t uint32_t
  | Adc_hal_disable uint32_t uint32_t
  | Adc_hal_set_group_mux uint32_t uint32_t
  | Adc_hal_configure_interrupt uint32_t uint32_t bool
  | Adc_hal_enable uint32_t uint32_t int bool
  | Interrupt_enable int
  | Interrupt_disable int
  | User_callback uint32_t

text \<open>
  The state is the static array \<open>adc_context_internal\<close>, indexed by the instance (only
  the indices below \<open>HW_ADC_INSTANCE_COUNT\<close> are elements of the array), and the calls made
  so far, oldest first.
\<close>

record driver_state =
  adc_context_internal :: "uint32_t \<Rightarrow> adc_context_t"
  hal_trace :: "hal_call list"

text \<open>
  The callback is code of the application. It runs inside \<open>adc_isr_internal\<close> and may use
  the driver, so what it does is a parameter as well: the function at an address, called in a
  state of the driver, leaves the driver in a state.
\<close>

type_synonym user_code = "adc_isr_callback_t \<Rightarrow> driver_state \<Rightarrow> driver_state"

text \<open>
  What the hardware answers is a parameter too. The registers are volatile, so an answer
  depends on when it is asked for: the first argument of every field is the number of calls
  made before the one that reads.
\<close>

record adc_hw =
  hw_start_calibration :: "nat \<Rightarrow> uint32_t \<Rightarrow> adc_status_t"
  hw_calibration_PG :: "nat \<Rightarrow> uint32_t \<Rightarrow> uint32_t"
  hw_calibration_MG :: "nat \<Rightarrow> uint32_t \<Rightarrow> uint32_t"
  hw_conversion_value :: "nat \<Rightarrow> uint32_t \<Rightarrow> uint32_t \<Rightarrow> uint32_t"
  hw_conversion_completed :: "nat \<Rightarrow> uint32_t \<Rightarrow> uint32_t \<Rightarrow> bool"

datatype driver_error = Assert_failed | Out_of_bounds | Null_dereference

text \<open>A call that returns nothing is recorded.\<close>

definition call :: "hal_call \<Rightarrow> driver_state \<Rightarrow> driver_state" where
  "call c s = s\<lparr>hal_trace := hal_trace s @ [c]\<rparr>"

text \<open>A call that returns a value is recorded and returns the hardware's answer.\<close>

definition adc_hal_start_calibration ::
  "adc_hw \<Rightarrow> uint32_t \<Rightarrow> driver_state \<Rightarrow> adc_status_t \<times> driver_state" where
  "adc_hal_start_calibration hw instance s =
    (hw_start_calibration hw (length (hal_trace s)) instance,
     call (Adc_hal_start_calibration instance) s)"

definition adc_hal_get_calibration_PG ::
  "adc_hw \<Rightarrow> uint32_t \<Rightarrow> driver_state \<Rightarrow> uint32_t \<times> driver_state" where
  "adc_hal_get_calibration_PG hw instance s =
    (hw_calibration_PG hw (length (hal_trace s)) instance,
     call (Adc_hal_get_calibration_PG instance) s)"

definition adc_hal_get_calibration_MG ::
  "adc_hw \<Rightarrow> uint32_t \<Rightarrow> driver_state \<Rightarrow> uint32_t \<times> driver_state" where
  "adc_hal_get_calibration_MG hw instance s =
    (hw_calibration_MG hw (length (hal_trace s)) instance,
     call (Adc_hal_get_calibration_MG instance) s)"

definition adc_hal_get_conversion_value ::
  "adc_hw \<Rightarrow> uint32_t \<Rightarrow> uint32_t \<Rightarrow> driver_state \<Rightarrow> uint32_t \<times> driver_state" where
  "adc_hal_get_conversion_value hw instance mux s =
    (hw_conversion_value hw (length (hal_trace s)) instance mux,
     call (Adc_hal_get_conversion_value instance mux) s)"

definition adc_hal_is_conversion_completed ::
  "adc_hw \<Rightarrow> uint32_t \<Rightarrow> uint32_t \<Rightarrow> driver_state \<Rightarrow> bool \<times> driver_state" where
  "adc_hal_is_conversion_completed hw instance mux s =
    (hw_conversion_completed hw (length (hal_trace s)) instance mux,
     call (Adc_hal_is_conversion_completed instance mux) s)"

text \<open>Storing into one member of \<open>adc_context_internal[instance]\<close>.\<close>

definition set_context :: "uint32_t \<Rightarrow> (adc_context_t \<Rightarrow> adc_context_t) \<Rightarrow> driver_state \<Rightarrow> driver_state" where
  "set_context instance f s =
    s\<lparr>adc_context_internal := (adc_context_internal s)(instance := f (adc_context_internal s instance))\<rparr>"

subsection \<open>Internal code\<close>

definition adc_get_irq_id_internal :: "adc_platform \<Rightarrow> uint32_t \<Rightarrow> driver_error + int" where
  "adc_get_irq_id_internal p instance =
    (if instance < HW_ADC_INSTANCE_COUNT p then Inr (adc_irq_ids p instance)
     else Inl Assert_failed)"

definition adc_isr_internal ::
  "adc_platform \<Rightarrow> adc_hw \<Rightarrow> user_code \<Rightarrow> uint32_t \<Rightarrow> driver_state
   \<Rightarrow> driver_error + driver_state" where
  "adc_isr_internal p hw user instance s =
    (if instance < HW_ADC_INSTANCE_COUNT p then
       (let (v, s1) = adc_hal_get_conversion_value hw instance
                        (muxSelect_ctx (adc_context_internal s instance)) s;
            s2 = set_context instance (\<lambda>c. c\<lparr>value_ctx := v\<rparr>) s1
        in if userCallback (adc_context_internal s2 instance) \<noteq> 0 then
             Inr (user (userCallback (adc_context_internal s2 instance))
                    (call (User_callback (userCallback (adc_context_internal s2 instance))) s2))
           else Inr s2)
     else Inl Assert_failed)"

subsection \<open>Code\<close>

text \<open>
  \<open>paramPtr\<close> is written through, so the functions that take it also return what it
  points to afterwards.
\<close>

definition adc_get_calibration_param ::
  "adc_hw \<Rightarrow> uint32_t \<Rightarrow> adc_calibration_param_t option \<Rightarrow> driver_state
   \<Rightarrow> driver_error + adc_status_t \<times> adc_calibration_param_t option \<times> driver_state" where
  "adc_get_calibration_param hw instance paramPtr s =
    (let (st, s1) = adc_hal_start_calibration hw instance s in
     if kStatus_ADC_Failed = st then Inr (kStatus_ADC_Failed, paramPtr, s1)
     else
       (let (pg, s2) = adc_hal_get_calibration_PG hw instance s1 in
        case paramPtr of
          None \<Rightarrow> Inl Null_dereference
        | Some param \<Rightarrow>
            (let (mg, s3) = adc_hal_get_calibration_MG hw instance s2;
                 (r, s4) = adc_hal_get_conversion_value hw instance 0 s3;
                 s5 = call (Adc_hal_end_calibration instance) s4
             in Inr (kStatus_ADC_Success, Some (param\<lparr>PG := pg, MG := mg\<rparr>), s5))))"

definition adc_set_calibration_param ::
  "uint32_t \<Rightarrow> adc_calibration_param_t option \<Rightarrow> driver_state \<Rightarrow> adc_status_t \<times> driver_state" where
  "adc_set_calibration_param instance paramPtr s =
    (case paramPtr of
       None \<Rightarrow> (kStatus_ADC_InvalidArgument, s)
     | Some param \<Rightarrow>
         (let s1 = call (Adc_hal_set_calibration_PG instance (PG param)) s;
              s2 = call (Adc_hal_set_calibration_MG instance (MG param)) s1
          in (kStatus_ADC_Success, s2)))"

definition adc_init ::
  "adc_platform \<Rightarrow> uint32_t \<Rightarrow> adc_user_config_t option \<Rightarrow> driver_state \<Rightarrow> adc_status_t \<times> driver_state" where
  "adc_init p instance cfgPtr s =
    (case cfgPtr of
       None \<Rightarrow> (kStatus_ADC_InvalidArgument, s)
     | Some cfg \<Rightarrow>
         (let s1 = call (Clock_manager_set_gate (kClockModuleADC p) instance True) s;
              s2 = call (Adc_hal_set_clock_source_mode instance (clockSourceMode cfg)) s1;
              s3 = call (Adc_hal_set_clock_divider_mode instance (clockSourceDividerMode cfg)) s2;
              s4 = call (Adc_hal_set_reference_voltage_mode instance (referenceVoltageMode cfg)) s3;
              s5 = call (Adc_hal_set_resolution_mode instance (resolutionMode cfg)) s4;
              s6 = call (Adc_hal_configure_continuous_conversion instance (isContinuousEnabled cfg)) s5
          in (kStatus_ADC_Success, s6)))"

definition adc_auto_calibration ::
  "adc_platform \<Rightarrow> adc_hw \<Rightarrow> uint32_t \<Rightarrow> adc_calibration_param_t option \<Rightarrow> driver_state
   \<Rightarrow> driver_error + adc_status_t \<times> adc_calibration_param_t option \<times> driver_state" where
  "adc_auto_calibration p hw instance paramPtr s =
    (let adcCfg = \<lparr>clockSourceMode = kAdcClockSourceBusClk2 p,
                   clockSourceDividerMode = kAdcClockDivider8 p,
                   resolutionMode = kAdcSingleDiff16 p,
                   referenceVoltageMode = kAdcVoltageVref p,
                   isContinuousEnabled = False\<rparr>;
         (st, s1) = adc_init p instance (Some adcCfg) s
     in if kStatus_ADC_Success \<noteq> st then Inr (kStatus_ADC_Failed, paramPtr, s1)
        else
          (let s2 = call (Adc_hal_configure_hw_average instance True) s1;
               s3 = call (Adc_hal_set_hw_average_mode instance (kAdcHwAverageCount32 p)) s2
           in case adc_get_calibration_param hw instance paramPtr s3 of
                Inl e \<Rightarrow> Inl e
              | Inr (st', paramPtr', s4) \<Rightarrow>
                  if kStatus_ADC_Success \<noteq> st' then Inr (kStatus_ADC_Failed, paramPtr', s4)
                  else
                    (let (st'', s5) = adc_set_calibration_param instance paramPtr' s4;
                         s6 = call (Adc_hal_configure_hw_average instance False) s5
                     in Inr (kStatus_ADC_Success, paramPtr', s6))))"

definition adc_start_conversion ::
  "adc_platform \<Rightarrow> uint32_t \<Rightarrow> adc_channel_config_t option \<Rightarrow> driver_state
   \<Rightarrow> driver_error + adc_status_t \<times> driver_state" where
  "adc_start_conversion p instance channelCfgPtr s =
    (case channelCfgPtr of
       None \<Rightarrow> Inr (kStatus_ADC_InvalidArgument, s)
     | Some cfg \<Rightarrow>
         (let s1 = call (Adc_hal_disable instance (muxSelect cfg)) s;
              s2 = call (Adc_hal_set_group_mux instance (muxSelect cfg)) s1
          in if isInterruptEnabled cfg then
               (if instance < HW_ADC_INSTANCE_COUNT p then
                  (let s3 = set_context instance (\<lambda>c. c\<lparr>muxSelect_ctx := muxSelect cfg\<rparr>) s2 in
                   case adc_get_irq_id_internal p instance of
                     Inl e \<Rightarrow> Inl e
                   | Inr irq \<Rightarrow>
                       (let s4 = call (Interrupt_enable irq) s3;
                            s5 = call (Adc_hal_configure_interrupt instance (muxSelect cfg) True) s4;
                            s6 = call (Adc_hal_enable instance (muxSelect cfg) (channelId cfg)
                                         (isDifferentialEnabled cfg)) s5
                        in Inr (kStatus_ADC_Success, s6)))
                else Inl Out_of_bounds)
             else
               (let s3 = call (Adc_hal_configure_interrupt instance (muxSelect cfg) False) s2 in
                case adc_get_irq_id_internal p instance of
                  Inl e \<Rightarrow> Inl e
                | Inr irq \<Rightarrow>
                    (let s4 = call (Interrupt_disable irq) s3;
                         s5 = call (Adc_hal_enable instance (muxSelect cfg) (channelId cfg)
                                      (isDifferentialEnabled cfg)) s4
                     in Inr (kStatus_ADC_Success, s5)))))"

definition adc_is_conversion_completed ::
  "adc_hw \<Rightarrow> uint32_t \<Rightarrow> adc_channel_config_t option \<Rightarrow> driver_state \<Rightarrow> bool \<times> driver_state" where
  "adc_is_conversion_completed hw instance channelCfgPtr s =
    (case channelCfgPtr of
       None \<Rightarrow> (False, s)
     | Some cfg \<Rightarrow> adc_hal_is_conversion_completed hw instance (muxSelect cfg) s)"

text \<open>
  The busy-wait loop of \<open>adc_get_conversion_value\<close>,
  \<open>while (!adc_hal_is_conversion_completed(instance, mux)) {}\<close>. It need not end: its
  result is \<open>None\<close> when it does not.
\<close>

partial_function (option) wait_conversion_completed ::
  "adc_hw \<Rightarrow> uint32_t \<Rightarrow> uint32_t \<Rightarrow> driver_state \<Rightarrow> driver_state option" where
  "wait_conversion_completed hw instance mux s =
    (let (completed, s1) = adc_hal_is_conversion_completed hw instance mux s in
     if \<not> completed then wait_conversion_completed hw instance mux s1 else Some s1)"

definition adc_get_conversion_value ::
  "adc_platform \<Rightarrow> adc_hw \<Rightarrow> uint32_t \<Rightarrow> adc_channel_config_t option \<Rightarrow> driver_state
   \<Rightarrow> (uint32_t \<times> driver_state) option" where
  "adc_get_conversion_value p hw instance channelCfgPtr s =
    (if instance \<ge> HW_ADC_INSTANCE_COUNT p \<or> channelCfgPtr = None then Some (0, s)
     else
       (let cfg = the channelCfgPtr in
        if \<not> isInterruptEnabled cfg then
          (case wait_conversion_completed hw instance (muxSelect cfg) s of
             None \<Rightarrow> None
           | Some s1 \<Rightarrow>
               (let (v, s2) = adc_hal_get_conversion_value hw instance (muxSelect cfg) s1;
                    s3 = set_context instance (\<lambda>c. c\<lparr>value_ctx := v\<rparr>) s2
                in Some (value_ctx (adc_context_internal s3 instance), s3)))
        else Some (value_ctx (adc_context_internal s instance), s)))"

definition adc_register_user_callback_isr ::
  "adc_platform \<Rightarrow> uint32_t \<Rightarrow> adc_isr_callback_t \<Rightarrow> driver_state \<Rightarrow> driver_error + driver_state" where
  "adc_register_user_callback_isr p instance func s =
    (if instance < HW_ADC_INSTANCE_COUNT p then
       Inr (set_context instance (\<lambda>c. c\<lparr>userCallback := func\<rparr>) s)
     else Inl Out_of_bounds)"

subsection \<open>What the calls made so far have set\<close>

text \<open>
  Whether hardware averaging of an instance is switched on: the argument of the newest
  call of \<open>adc_hal_configure_hw_average\<close> for it, \<open>None\<close> when there is none. The first
  function reads the calls newest first.
\<close>

fun newest_hw_average :: "uint32_t \<Rightarrow> hal_call list \<Rightarrow> bool option" where
  "newest_hw_average i [] = None"
| "newest_hw_average i (Adc_hal_configure_hw_average j b # cs) =
     (if j = i then Some b else newest_hw_average i cs)"
| "newest_hw_average i (c # cs) = newest_hw_average i cs"

definition hw_average_enabled :: "uint32_t \<Rightarrow> driver_state \<Rightarrow> bool option" where
  "hw_average_enabled i s = newest_hw_average i (rev (hal_trace s))"

subsection \<open>Concrete inputs\<close>

text \<open>
  A platform with two ADC instances, the state after reset (the static array is
  zero-initialised and nothing has been called), and hardware whose conversion completes
  at the third access and then reads \<open>0x1234\<close>.
\<close>

definition two_adc_platform :: adc_platform where
  "two_adc_platform =
    \<lparr>HW_ADC_INSTANCE_COUNT = 2, adc_irq_ids = (\<lambda>i. if i = 0 then 39 else 73),
     kClockModuleADC = 0, kAdcClockSourceBusClk2 = 1, kAdcClockDivider8 = 3,
     kAdcSingleDiff16 = 3, kAdcVoltageVref = 0, kAdcHwAverageCount32 = 3\<rparr>"

definition reset_state :: driver_state where
  "reset_state =
    \<lparr>adc_context_internal = (\<lambda>i. \<lparr>userCallback = 0, muxSelect_ctx = 0, value_ctx = 0\<rparr>),
     hal_trace = []\<rparr>"

definition slow_hw :: adc_hw where
  "slow_hw =
    \<lparr>hw_start_calibration = (\<lambda>t i. kStatus_ADC_Success),
     hw_calibration_PG = (\<lambda>t i. 0x8200),
     hw_calibration_MG = (\<lambda>t i. 0x8100),
     hw_conversion_value = (\<lambda>t i m. 0x1234),
     hw_conversion_completed = (\<lambda>t i m. 2 \<le> t)\<rparr>"

definition polling_cfg :: adc_channel_config_t where
  "polling_cfg =
    \<lparr>channelId = 12, isDifferentialEnabled = False, isInterruptEnabled = False, muxSelect = 0\<rparr>"

definition interrupt_cfg :: adc_channel_config_t where
  "interrupt_cfg =
    \<lparr>channelId = 12, isDifferentialEnabled = False, isInterruptEnabled = True, muxSelect = 1\<rparr>"

text \<open>
  An application whose callback fetches the buffered value of instance 0 through the driver
  and hands it on, here as the two calibration values of that instance.
\<close>

definition forwarding_callback :: "adc_platform \<Rightarrow> adc_hw \<Rightarrow> user_code" where
  "forwarding_callback p hw f s =
    (case adc_get_conversion_value p hw 0 (Some interrupt_cfg) s of
       None \<Rightarrow> s
     | Some (v, s1) \<Rightarrow> snd (adc_set_calibration_param 0 (Some \<lparr>PG = v, MG = v\<rparr>) s1))"

section \<open>Properties of the register map\<close>

lemmas nv_addr_defs =
  HW_NV_BACKKEY3_ADDR_def HW_NV_BACKKEY2_ADDR_def HW_NV_BACKKEY1_ADDR_def HW_NV_BACKKEY0_ADDR_def
  HW_NV_BACKKEY7_ADDR_def HW_NV_BACKKEY6_ADDR_def HW_NV_BACKKEY5_ADDR_def HW_NV_BACKKEY4_ADDR_def
  HW_NV_FPROT3_ADDR_def HW_NV_FPROT2_ADDR_def HW_NV_FPROT1_ADDR_def HW_NV_FPROT0_ADDR_def
  HW_NV_FSEC_ADDR_def HW_NV_FOPT_ADDR_def HW_NV_FEPROT_ADDR_def HW_NV_FDPROT_ADDR_def

lemma upt16: "[0..<16] = [0,1,2,3,4,5,6,7,8,9,10,11,12,13,14,15::nat]"
  by (simp add: upt_conv_Cons)
lemma nv_member_addrs: "map member_addr hw_nv_t = map (\<lambda>k. REGS_NV_BASE + of_nat k) [0..<16]"
  by (simp add: hw_nv_t_def nv_addr_defs upt16)

lemmas nv_bitfields_defs =
  hw_nv_backkey3_bitfields_def hw_nv_backkey2_bitfields_def hw_nv_backkey1_bitfields_def
  hw_nv_backkey0_bitfields_def hw_nv_backkey7_bitfields_def hw_nv_backkey6_bitfields_def
  hw_nv_backkey5_bitfields_def hw_nv_backkey4_bitfields_def hw_nv_fprot3_bitfields_def
  hw_nv_fprot2_bitfields_def hw_nv_fprot1_bitfields_def hw_nv_fprot0_bitfields_def
  hw_nv_fsec_bitfields_def hw_nv_fopt_bitfields_def hw_nv_feprot_bitfields_def
  hw_nv_fdprot_bitfields_def

lemma sizeof_regs:
  "sizeof_reg_union hw_nv_backkey3_bitfields = 1" "sizeof_reg_union hw_nv_backkey2_bitfields = 1"
  "sizeof_reg_union hw_nv_backkey1_bitfields = 1" "sizeof_reg_union hw_nv_backkey0_bitfields = 1"
  "sizeof_reg_union hw_nv_backkey7_bitfields = 1" "sizeof_reg_union hw_nv_backkey6_bitfields = 1"
  "sizeof_reg_union hw_nv_backkey5_bitfields = 1" "sizeof_reg_union hw_nv_backkey4_bitfields = 1"
  "sizeof_reg_union hw_nv_fprot3_bitfields = 1" "sizeof_reg_union hw_nv_fprot2_bitfields = 1"
  "sizeof_reg_union hw_nv_fprot1_bitfields = 1" "sizeof_reg_union hw_nv_fprot0_bitfields = 1"
  "sizeof_reg_union hw_nv_fsec_bitfields = 1" "sizeof_reg_union hw_nv_fopt_bitfields = 1"
  "sizeof_reg_union hw_nv_feprot_bitfields = 1" "sizeof_reg_union hw_nv_fdprot_bitfields = 1"
  by (simp_all add: nv_bitfields_defs sizeof_reg_union_def bitfields_bits_def sizeof_uint8_t_def)

lemma replicate16: "replicate 16 x = [x,x,x,x,x,x,x,x,x,x,x,x,x,x,x,x]"
  by (simp add: eval_nat_numeral)

lemma nv_member_sizes: "map (\<lambda>m. sizeof_reg_union (member_type m)) hw_nv_t = replicate 16 1"
  by (simp add: hw_nv_t_def sizeof_regs replicate16)

lemma nv_packed_offsets: "packed_offsets 0 hw_nv_t = [0..<16]"
  by (simp add: hw_nv_t_def sizeof_regs upt16)

text \<open>
  C6. The sixteen NV registers lie at sixteen consecutive byte addresses: the address
  macros, in the order of the struct members, are \<open>REGS_NV_BASE + 0x0\<close> up to
  \<open>REGS_NV_BASE + 0xF\<close> with \<open>REGS_NV_BASE = 0x400\<close>, they are pairwise different, every
  member of the packed struct \<open>hw_nv_t\<close> is one byte wide and lies at that same offset, and
  so the overlay \<open>HW_NV\<close> at \<open>REGS_NV_BASE\<close> puts every member at the address of its
  register.
\<close>

theorem nv_registers_consecutive:
  "REGS_NV_BASE = 0x400
   \<and> length hw_nv_t = 16
   \<and> map member_addr hw_nv_t = map (\<lambda>k. REGS_NV_BASE + of_nat k) [0..<16]
   \<and> map member_addr hw_nv_t =
       [0x400, 0x401, 0x402, 0x403, 0x404, 0x405, 0x406, 0x407,
        0x408, 0x409, 0x40A, 0x40B, 0x40C, 0x40D, 0x40E, 0x40F]
   \<and> distinct (map member_addr hw_nv_t)
   \<and> map (\<lambda>m. sizeof_reg_union (member_type m)) hw_nv_t = replicate 16 1
   \<and> packed_offsets 0 hw_nv_t = [0..<16]
   \<and> HW_NV_member_addrs = map member_addr hw_nv_t"
proof -
  have base: "REGS_NV_BASE = 0x400"
    by (simp add: REGS_NV_BASE_def)
  have addrs: "map member_addr hw_nv_t =
       [0x400, 0x401, 0x402, 0x403, 0x404, 0x405, 0x406, 0x407,
        0x408, 0x409, 0x40A, 0x40B, 0x40C, 0x40D, 0x40E, 0x40F]"
    by (simp add: hw_nv_t_def nv_addr_defs REGS_NV_BASE_def)
  have dist: "distinct (map member_addr hw_nv_t)"
    unfolding addrs by simp
  have overlay: "HW_NV_member_addrs = map member_addr hw_nv_t"
    unfolding HW_NV_member_addrs_def nv_packed_offsets nv_member_addrs ..
  have len: "length hw_nv_t = 16"
    by (simp add: hw_nv_t_def)
  show ?thesis
    by (intro conjI base len nv_member_addrs addrs dist nv_member_sizes nv_packed_offsets overlay)
qed

text \<open>
  C7. In NV\_FSEC the fields SEC, FSLACC, MEEN and KEYEN start at bits 0, 2, 4 and 6 and
  are 2 bits wide each; every mask \<open>BM\<close> is \<open>2 ^ size - 1\<close> shifted left by the position
  \<open>BP\<close>; the four masks are pairwise disjoint and together cover the 8 bits of the register;
  and positions and sizes are those of the declared bit-field struct.
\<close>

theorem nv_fsec_bitfield_layout:
  "[BP_NV_FSEC_SEC, BP_NV_FSEC_FSLACC, BP_NV_FSEC_MEEN, BP_NV_FSEC_KEYEN] = [0, 2, 4, 6]
   \<and> [BS_NV_FSEC_SEC, BS_NV_FSEC_FSLACC, BS_NV_FSEC_MEEN, BS_NV_FSEC_KEYEN] = [2, 2, 2, 2]
   \<and> BM_NV_FSEC_SEC = field_mask BP_NV_FSEC_SEC BS_NV_FSEC_SEC
   \<and> BM_NV_FSEC_FSLACC = field_mask BP_NV_FSEC_FSLACC BS_NV_FSEC_FSLACC
   \<and> BM_NV_FSEC_MEEN = field_mask BP_NV_FSEC_MEEN BS_NV_FSEC_MEEN
   \<and> BM_NV_FSEC_KEYEN = field_mask BP_NV_FSEC_KEYEN BS_NV_FSEC_KEYEN
   \<and> BM_NV_FSEC_SEC AND BM_NV_FSEC_FSLACC = 0
   \<and> BM_NV_FSEC_SEC AND BM_NV_FSEC_MEEN = 0
   \<and> BM_NV_FSEC_SEC AND BM_NV_FSEC_KEYEN = 0
   \<and> BM_NV_FSEC_FSLACC AND BM_NV_FSEC_MEEN = 0
   \<and> BM_NV_FSEC_FSLACC AND BM_NV_FSEC_KEYEN = 0
   \<and> BM_NV_FSEC_MEEN AND BM_NV_FSEC_KEYEN = 0
   \<and> BM_NV_FSEC_SEC OR BM_NV_FSEC_FSLACC OR BM_NV_FSEC_MEEN OR BM_NV_FSEC_KEYEN = 0xFF
   \<and> bitfields_bits hw_nv_fsec_bitfields = 8
   \<and> bit_positions 0 hw_nv_fsec_bitfields =
       [(''SEC'', unat BP_NV_FSEC_SEC), (''FSLACC'', unat BP_NV_FSEC_FSLACC),
        (''MEEN'', unat BP_NV_FSEC_MEEN), (''KEYEN'', unat BP_NV_FSEC_KEYEN)]
   \<and> hw_nv_fsec_bitfields =
       [(''SEC'', unat BS_NV_FSEC_SEC), (''FSLACC'', unat BS_NV_FSEC_FSLACC),
        (''MEEN'', unat BS_NV_FSEC_MEEN), (''KEYEN'', unat BS_NV_FSEC_KEYEN)]"
  by (simp add: BP_NV_FSEC_SEC_def BP_NV_FSEC_FSLACC_def BP_NV_FSEC_MEEN_def BP_NV_FSEC_KEYEN_def
      BS_NV_FSEC_SEC_def BS_NV_FSEC_FSLACC_def BS_NV_FSEC_MEEN_def BS_NV_FSEC_KEYEN_def
      BM_NV_FSEC_SEC_def BM_NV_FSEC_FSLACC_def BM_NV_FSEC_MEEN_def BM_NV_FSEC_KEYEN_def
      field_mask_def hw_nv_fsec_bitfields_def bitfields_bits_def)

section \<open>Properties of the ADC driver\<close>

lemma wait_step:
  "wait_conversion_completed hw instance mux s =
    (if hw_conversion_completed hw (length (hal_trace s)) instance mux
     then Some (call (Adc_hal_is_conversion_completed instance mux) s)
     else wait_conversion_completed hw instance mux (call (Adc_hal_is_conversion_completed instance mux) s))"
  by (subst wait_conversion_completed.simps) (simp add: adc_hal_is_conversion_completed_def)

lemma call_replicate:
  "hal_trace (call c s) @ replicate k c = hal_trace s @ replicate (Suc k) c"
  by (simp add: call_def replicate_app_Cons_same)

lemma wait_returns:
  "\<forall>j<k. \<not> hw_conversion_completed hw (length (hal_trace s) + j) instance mux \<Longrightarrow>
   hw_conversion_completed hw (length (hal_trace s) + k) instance mux \<Longrightarrow>
   wait_conversion_completed hw instance mux s =
     Some (s\<lparr>hal_trace := hal_trace s @ replicate (Suc k) (Adc_hal_is_conversion_completed instance mux)\<rparr>)"
proof (induction k arbitrary: s)
  case 0
  then show ?case
    by (subst wait_step) (simp add: call_def)
next
  case (Suc k)
  let ?c = "Adc_hal_is_conversion_completed instance mux"
  have first: "\<not> hw_conversion_completed hw (length (hal_trace s)) instance mux"
    using Suc.prems(1) by force
  have later: "\<forall>j<k. \<not> hw_conversion_completed hw (length (hal_trace (call ?c s)) + j) instance mux"
    using Suc.prems(1) by (auto simp: call_def)
  have last: "hw_conversion_completed hw (length (hal_trace (call ?c s)) + k) instance mux"
    using Suc.prems(2) by (simp add: call_def)
  have "wait_conversion_completed hw instance mux s = wait_conversion_completed hw instance mux (call ?c s)"
    using first by (subst wait_step) simp
  also have "\<dots> = Some ((call ?c s)\<lparr>hal_trace := hal_trace (call ?c s) @ replicate (Suc k) ?c\<rparr>)"
    by (rule Suc.IH [OF later last])
  also have "\<dots> = Some (s\<lparr>hal_trace := hal_trace s @ replicate (Suc (Suc k)) ?c\<rparr>)"
    by (simp add: call_def replicate_app_Cons_same)
  finally show ?case .
qed

lemma wait_only_if_completed:
  assumes "wait_conversion_completed hw inst mux s = Some s'"
  shows "\<exists>k. hw_conversion_completed hw (length (hal_trace s) + k) inst mux"
proof (rule wait_conversion_completed.raw_induct
    [where P = "\<lambda>hw i m s s'. \<exists>k. hw_conversion_completed hw (length (hal_trace s) + k) i m",
      OF _ assms])
  fix w hw i m s s'
  assume IH: "\<And>hw i m s s'. w hw i m s = Some s' \<Longrightarrow>
                 \<exists>k. hw_conversion_completed hw (length (hal_trace s) + k) i m"
    and step: "(let (completed, s1) = adc_hal_is_conversion_completed hw i m s
                in if \<not> completed then w hw i m s1 else Some s1) = Some s'"
  show "\<exists>k. hw_conversion_completed hw (length (hal_trace s) + k) i m"
  proof (cases "hw_conversion_completed hw (length (hal_trace s)) i m")
    case True
    then have "hw_conversion_completed hw (length (hal_trace s) + 0) i m" by simp
    then show ?thesis by blast
  next
    case False
    with step have "w hw i m (call (Adc_hal_is_conversion_completed i m) s) = Some s'"
      by (simp add: adc_hal_is_conversion_completed_def)
    from IH [OF this] obtain k where
      "hw_conversion_completed hw (Suc (length (hal_trace s)) + k) i m"
      by (auto simp: call_def)
    then have "hw_conversion_completed hw (length (hal_trace s) + Suc k) i m" by simp
    then show ?thesis by blast
  qed
qed

lemma adc_init_Some:
  "adc_init p inst (Some cfg) s =
       (kStatus_ADC_Success,
        s\<lparr>hal_trace := hal_trace s @
           [Clock_manager_set_gate (kClockModuleADC p) inst True,
            Adc_hal_set_clock_source_mode inst (clockSourceMode cfg),
            Adc_hal_set_clock_divider_mode inst (clockSourceDividerMode cfg),
            Adc_hal_set_reference_voltage_mode inst (referenceVoltageMode cfg),
            Adc_hal_set_resolution_mode inst (resolutionMode cfg),
            Adc_hal_configure_continuous_conversion inst (isContinuousEnabled cfg)]\<rparr>)"
  by (simp add: adc_init_def call_def)

lemma polling_result:
  assumes valid: "inst < HW_ADC_INSTANCE_COUNT p"
    and polling: "\<not> isInterruptEnabled cfg"
    and before: "\<forall>j<k. \<not> hw_conversion_completed hw (length (hal_trace s) + j) inst (muxSelect cfg)"
    and at: "hw_conversion_completed hw (length (hal_trace s) + k) inst (muxSelect cfg)"
  shows "adc_get_conversion_value p hw inst (Some cfg) s =
      Some (hw_conversion_value hw (length (hal_trace s) + Suc k) inst (muxSelect cfg),
            s\<lparr>adc_context_internal := (adc_context_internal s)
                 (inst := (adc_context_internal s inst)
                    \<lparr>value_ctx := hw_conversion_value hw (length (hal_trace s) + Suc k) inst
                                    (muxSelect cfg)\<rparr>),
               hal_trace := hal_trace s @
                 replicate (Suc k) (Adc_hal_is_conversion_completed inst (muxSelect cfg)) @
                 [Adc_hal_get_conversion_value inst (muxSelect cfg)]\<rparr>)"
proof -
  have "\<not> HW_ADC_INSTANCE_COUNT p \<le> inst"
    using valid by simp
  then show ?thesis
    using polling wait_returns [OF before at]
    by (simp add: adc_get_conversion_value_def adc_hal_get_conversion_value_def
        set_context_def call_def)
qed
lemma adc_isr_internal_result:
  assumes "inst < HW_ADC_INSTANCE_COUNT p"
  shows "adc_isr_internal p hw user inst s =
      Inr (if userCallback (adc_context_internal s inst) \<noteq> 0
           then user (userCallback (adc_context_internal s inst))
                  (s\<lparr>adc_context_internal := (adc_context_internal s)
                       (inst := (adc_context_internal s inst)
                          \<lparr>value_ctx := hw_conversion_value hw (length (hal_trace s)) inst
                                          (muxSelect_ctx (adc_context_internal s inst))\<rparr>),
                     hal_trace := hal_trace s @
                       [Adc_hal_get_conversion_value inst (muxSelect_ctx (adc_context_internal s inst)),
                        User_callback (userCallback (adc_context_internal s inst))]\<rparr>)
           else s\<lparr>adc_context_internal := (adc_context_internal s)
                       (inst := (adc_context_internal s inst)
                          \<lparr>value_ctx := hw_conversion_value hw (length (hal_trace s)) inst
                                          (muxSelect_ctx (adc_context_internal s inst))\<rparr>),
                     hal_trace := hal_trace s @
                       [Adc_hal_get_conversion_value inst
                          (muxSelect_ctx (adc_context_internal s inst))]\<rparr>)"
  using assms
  by (simp add: adc_isr_internal_def set_context_def adc_hal_get_conversion_value_def call_def)

lemma forwarding_callback_keeps_context:
  "adc_context_internal (forwarding_callback p hw f st) = adc_context_internal st"
  by (simp add: forwarding_callback_def adc_get_conversion_value_def interrupt_cfg_def
      adc_set_calibration_param_def call_def)

lemma adc_get_calibration_param_failed:
  "hw_start_calibration hw (length (hal_trace s)) inst = kStatus_ADC_Failed \<Longrightarrow>
   adc_get_calibration_param hw inst paramPtr s =
     Inr (kStatus_ADC_Failed, paramPtr,
          s\<lparr>hal_trace := hal_trace s @ [Adc_hal_start_calibration inst]\<rparr>)"
  by (simp add: adc_get_calibration_param_def adc_hal_start_calibration_def call_def)

lemma adc_get_calibration_param_started:
  "hw_start_calibration hw (length (hal_trace s)) inst \<noteq> kStatus_ADC_Failed \<Longrightarrow>
   adc_get_calibration_param hw inst (Some param) s =
     Inr (kStatus_ADC_Success,
          Some (param\<lparr>PG := hw_calibration_PG hw (length (hal_trace s) + 1) inst,
                      MG := hw_calibration_MG hw (length (hal_trace s) + 2) inst\<rparr>),
          s\<lparr>hal_trace := hal_trace s @
             [Adc_hal_start_calibration inst, Adc_hal_get_calibration_PG inst,
              Adc_hal_get_calibration_MG inst, Adc_hal_get_conversion_value inst 0,
              Adc_hal_end_calibration inst]\<rparr>)"
  by (auto simp: adc_get_calibration_param_def adc_hal_start_calibration_def
      adc_hal_get_calibration_PG_def adc_hal_get_calibration_MG_def
      adc_hal_get_conversion_value_def call_def)

lemma adc_get_calibration_param_started_at:
  assumes "length (hal_trace s) = t"
    and "hw_start_calibration hw t inst \<noteq> kStatus_ADC_Failed"
  shows "adc_get_calibration_param hw inst (Some param) s =
     Inr (kStatus_ADC_Success,
          Some (param\<lparr>PG := hw_calibration_PG hw (t + 1) inst,
                      MG := hw_calibration_MG hw (t + 2) inst\<rparr>),
          s\<lparr>hal_trace := hal_trace s @
             [Adc_hal_start_calibration inst, Adc_hal_get_calibration_PG inst,
              Adc_hal_get_calibration_MG inst, Adc_hal_get_conversion_value inst 0,
              Adc_hal_end_calibration inst]\<rparr>)"
  using assms adc_get_calibration_param_started [of hw s inst param] by blast

text \<open>
  C1. For an instance below \<open>HW_ADC_INSTANCE_COUNT\<close> and a configuration that is not
  \<open>NULL\<close>, \<open>adc_get_conversion_value\<close> works in one of two modes. In polling mode
  (\<open>isInterruptEnabled\<close> false), when the completion flag of the configured mux is first
  seen set at the \<open>k\<close>-th poll after the first, the function polls \<open>k + 1\<close> times, then reads
  the conversion value of that mux once, stores it into the context buffer of the instance and
  returns the stored value. In interrupt mode it calls nothing, changes nothing and returns the
  value in the context buffer of the instance; after \<open>adc_isr_internal\<close> has run, that is the
  value the ISR read, whenever the user's callback leaves that buffer alone (a callback that does
  nothing is one).
\<close>

theorem adc_get_conversion_value_two_modes:
  assumes "inst < HW_ADC_INSTANCE_COUNT p"
  shows "(\<not> isInterruptEnabled cfg \<longrightarrow>
          (\<forall>j<k. \<not> hw_conversion_completed hw (length (hal_trace s) + j) inst (muxSelect cfg)) \<longrightarrow>
          hw_conversion_completed hw (length (hal_trace s) + k) inst (muxSelect cfg) \<longrightarrow>
          adc_get_conversion_value p hw inst (Some cfg) s =
            Some (hw_conversion_value hw (length (hal_trace s) + Suc k) inst (muxSelect cfg),
                  s\<lparr>adc_context_internal := (adc_context_internal s)
                       (inst := (adc_context_internal s inst)
                          \<lparr>value_ctx := hw_conversion_value hw (length (hal_trace s) + Suc k) inst
                                          (muxSelect cfg)\<rparr>),
                     hal_trace := hal_trace s @
                       replicate (Suc k) (Adc_hal_is_conversion_completed inst (muxSelect cfg)) @
                       [Adc_hal_get_conversion_value inst (muxSelect cfg)]\<rparr>))
    \<and> (isInterruptEnabled cfg \<longrightarrow>
          adc_get_conversion_value p hw inst (Some cfg) s =
            Some (value_ctx (adc_context_internal s inst), s)
          \<and> ((\<forall>f st. value_ctx (adc_context_internal (user f st) inst) =
                       value_ctx (adc_context_internal st inst)) \<longrightarrow>
              (\<exists>s'. adc_isr_internal p hw user inst s = Inr s'
                \<and> adc_get_conversion_value p hw inst (Some cfg) s' =
                    Some (hw_conversion_value hw (length (hal_trace s)) inst
                            (muxSelect_ctx (adc_context_internal s inst)), s'))))"
proof (intro conjI impI)
  assume "\<not> isInterruptEnabled cfg"
    and "\<forall>j<k. \<not> hw_conversion_completed hw (length (hal_trace s) + j) inst (muxSelect cfg)"
    and "hw_conversion_completed hw (length (hal_trace s) + k) inst (muxSelect cfg)"
  then show "adc_get_conversion_value p hw inst (Some cfg) s =
            Some (hw_conversion_value hw (length (hal_trace s) + Suc k) inst (muxSelect cfg),
                  s\<lparr>adc_context_internal := (adc_context_internal s)
                       (inst := (adc_context_internal s inst)
                          \<lparr>value_ctx := hw_conversion_value hw (length (hal_trace s) + Suc k) inst
                                          (muxSelect cfg)\<rparr>),
                     hal_trace := hal_trace s @
                       replicate (Suc k) (Adc_hal_is_conversion_completed inst (muxSelect cfg)) @
                       [Adc_hal_get_conversion_value inst (muxSelect cfg)]\<rparr>)"
    by (rule polling_result [OF assms])
next
  assume intr: "isInterruptEnabled cfg"
  have valid: "\<not> HW_ADC_INSTANCE_COUNT p \<le> inst"
    using assms by simp
  show "adc_get_conversion_value p hw inst (Some cfg) s =
      Some (value_ctx (adc_context_internal s inst), s)"
    using intr valid by (simp add: adc_get_conversion_value_def)
  assume keeps: "\<forall>f st. value_ctx (adc_context_internal (user f st) inst) =
      value_ctx (adc_context_internal st inst)"
  show "\<exists>s'. adc_isr_internal p hw user inst s = Inr s'
      \<and> adc_get_conversion_value p hw inst (Some cfg) s' =
          Some (hw_conversion_value hw (length (hal_trace s)) inst
                  (muxSelect_ctx (adc_context_internal s inst)), s')"
    using intr valid keeps
    by (simp add: adc_isr_internal_result [OF assms] adc_get_conversion_value_def)
qed

theorem adc_get_conversion_value_two_modes_witness:
  "(0 :: uint32_t) < HW_ADC_INSTANCE_COUNT two_adc_platform
   \<and> \<not> isInterruptEnabled polling_cfg
   \<and> \<not> hw_conversion_completed slow_hw 0 0 (muxSelect polling_cfg)
   \<and> \<not> hw_conversion_completed slow_hw 1 0 (muxSelect polling_cfg)
   \<and> hw_conversion_completed slow_hw 2 0 (muxSelect polling_cfg)
   \<and> adc_get_conversion_value two_adc_platform slow_hw 0 (Some polling_cfg) reset_state =
       Some (0x1234,
             \<lparr>adc_context_internal =
                (\<lambda>i. \<lparr>userCallback = 0, muxSelect_ctx = 0, value_ctx = 0\<rparr>)
                (0 := \<lparr>userCallback = 0, muxSelect_ctx = 0, value_ctx = 0x1234\<rparr>),
              hal_trace =
                [Adc_hal_is_conversion_completed 0 0, Adc_hal_is_conversion_completed 0 0,
                 Adc_hal_is_conversion_completed 0 0, Adc_hal_get_conversion_value 0 0]\<rparr>)
   \<and> isInterruptEnabled interrupt_cfg
   \<and> adc_get_conversion_value two_adc_platform slow_hw 0 (Some interrupt_cfg) reset_state =
       Some (0, reset_state)
   \<and> value_ctx (adc_context_internal
         (forwarding_callback two_adc_platform slow_hw 0x410 reset_state) 0) =
       value_ctx (adc_context_internal reset_state 0)
   \<and> (\<exists>s'. adc_isr_internal two_adc_platform slow_hw
               (forwarding_callback two_adc_platform slow_hw) 0 reset_state = Inr s'
          \<and> adc_get_conversion_value two_adc_platform slow_hw 0 (Some interrupt_cfg) s' =
              Some (0x1234, s'))"
proof -
  have keeps: "\<forall>f st. value_ctx (adc_context_internal
        (forwarding_callback two_adc_platform slow_hw f st) 0) =
      value_ctx (adc_context_internal st 0)"
    by (simp add: forwarding_callback_keeps_context)
  show ?thesis
    using keeps
      adc_get_conversion_value_two_modes
        [where inst = 0 and p = two_adc_platform and cfg = polling_cfg and k = 2
          and hw = slow_hw and s = reset_state
          and user = "forwarding_callback two_adc_platform slow_hw"]
      adc_get_conversion_value_two_modes
        [where inst = 0 and p = two_adc_platform and cfg = interrupt_cfg and k = 0
          and hw = slow_hw and s = reset_state
          and user = "forwarding_callback two_adc_platform slow_hw"]
    by (simp add: two_adc_platform_def polling_cfg_def interrupt_cfg_def slow_hw_def
        reset_state_def numeral_2_eq_2)
qed

text \<open>
  C2. For an instance below \<open>HW_ADC_INSTANCE_COUNT\<close>, \<open>adc_isr_internal\<close> first reads the
  conversion value of the mux recorded in the instance's context and stores it into that
  context's value buffer, and then calls the user's callback exactly when the context holds one
  that is not \<open>NULL\<close>: the callback is called once, in the state in which the buffer already
  holds the new value, and what it leaves is the result; without a callback the result is the
  state after the store. \<open>adc_register_user_callback_isr\<close> stores its argument into the
  one callback member of the instance's context, whatever was there before: registering
  \<open>func\<close> after \<open>old\<close> gives the state that registering \<open>func\<close> alone gives.
\<close>

theorem adc_isr_internal_single_callback:
  assumes "inst < HW_ADC_INSTANCE_COUNT p"
  shows "adc_isr_internal p hw user inst s =
      Inr (if userCallback (adc_context_internal s inst) \<noteq> 0
           then user (userCallback (adc_context_internal s inst))
                  (s\<lparr>adc_context_internal := (adc_context_internal s)
                       (inst := (adc_context_internal s inst)
                          \<lparr>value_ctx := hw_conversion_value hw (length (hal_trace s)) inst
                                          (muxSelect_ctx (adc_context_internal s inst))\<rparr>),
                     hal_trace := hal_trace s @
                       [Adc_hal_get_conversion_value inst (muxSelect_ctx (adc_context_internal s inst)),
                        User_callback (userCallback (adc_context_internal s inst))]\<rparr>)
           else s\<lparr>adc_context_internal := (adc_context_internal s)
                       (inst := (adc_context_internal s inst)
                          \<lparr>value_ctx := hw_conversion_value hw (length (hal_trace s)) inst
                                          (muxSelect_ctx (adc_context_internal s inst))\<rparr>),
                     hal_trace := hal_trace s @
                       [Adc_hal_get_conversion_value inst
                          (muxSelect_ctx (adc_context_internal s inst))]\<rparr>)
    \<and> adc_register_user_callback_isr p inst func s =
      Inr (s\<lparr>adc_context_internal := (adc_context_internal s)
               (inst := (adc_context_internal s inst)\<lparr>userCallback := func\<rparr>)\<rparr>)
    \<and> (\<exists>s1 s2. adc_register_user_callback_isr p inst old s = Inr s1
          \<and> adc_register_user_callback_isr p inst func s1 = Inr s2
          \<and> adc_register_user_callback_isr p inst func s = Inr s2
          \<and> userCallback (adc_context_internal s2 inst) = func)"
  using assms
  by (simp add: adc_isr_internal_def adc_register_user_callback_isr_def set_context_def
      adc_hal_get_conversion_value_def call_def)

text \<open>
  At the reset state of a two-instance platform: without a callback the ISR only stores the
  value read, \<open>0x1234\<close>. With the forwarding callback registered at address \<open>0x410\<close>, the
  value the callback fetches and hands on is \<open>0x1234\<close>, the one just stored, not the 0 that
  the buffer held before.
\<close>

theorem adc_isr_internal_single_callback_witness:
  "(0 :: uint32_t) < HW_ADC_INSTANCE_COUNT two_adc_platform
   \<and> adc_isr_internal two_adc_platform slow_hw
        (forwarding_callback two_adc_platform slow_hw) 0 reset_state =
       Inr \<lparr>adc_context_internal =
                (\<lambda>i. \<lparr>userCallback = 0, muxSelect_ctx = 0, value_ctx = 0\<rparr>)
                (0 := \<lparr>userCallback = 0, muxSelect_ctx = 0, value_ctx = 0x1234\<rparr>),
              hal_trace = [Adc_hal_get_conversion_value 0 0]\<rparr>
   \<and> adc_register_user_callback_isr two_adc_platform 0 0x410 reset_state =
       Inr \<lparr>adc_context_internal =
                (\<lambda>i. \<lparr>userCallback = 0, muxSelect_ctx = 0, value_ctx = 0\<rparr>)
                (0 := \<lparr>userCallback = 0x410, muxSelect_ctx = 0, value_ctx = 0\<rparr>),
              hal_trace = []\<rparr>
   \<and> adc_isr_internal two_adc_platform slow_hw
        (forwarding_callback two_adc_platform slow_hw) 0
        \<lparr>adc_context_internal =
                (\<lambda>i. \<lparr>userCallback = 0, muxSelect_ctx = 0, value_ctx = 0\<rparr>)
                (0 := \<lparr>userCallback = 0x410, muxSelect_ctx = 0, value_ctx = 0\<rparr>),
              hal_trace = []\<rparr> =
       Inr \<lparr>adc_context_internal =
                (\<lambda>i. \<lparr>userCallback = 0, muxSelect_ctx = 0, value_ctx = 0\<rparr>)
                (0 := \<lparr>userCallback = 0x410, muxSelect_ctx = 0, value_ctx = 0x1234\<rparr>),
              hal_trace =
                [Adc_hal_get_conversion_value 0 0, User_callback 0x410,
                 Adc_hal_set_calibration_PG 0 0x1234, Adc_hal_set_calibration_MG 0 0x1234]\<rparr>"
  using adc_isr_internal_single_callback
      [where inst = 0 and p = two_adc_platform and hw = slow_hw and s = reset_state
        and user = "forwarding_callback two_adc_platform slow_hw"
        and func = "0x410" and old = 0]
    adc_isr_internal_single_callback
      [where inst = 0 and p = two_adc_platform and hw = slow_hw
        and user = "forwarding_callback two_adc_platform slow_hw"
        and s = "\<lparr>adc_context_internal =
                (\<lambda>i. \<lparr>userCallback = 0, muxSelect_ctx = 0, value_ctx = 0\<rparr>)
                (0 := \<lparr>userCallback = 0x410, muxSelect_ctx = 0, value_ctx = 0\<rparr>),
              hal_trace = []\<rparr>"
        and func = 0 and old = 0]
  by (simp add: two_adc_platform_def slow_hw_def reset_state_def forwarding_callback_def
      adc_get_conversion_value_def interrupt_cfg_def adc_set_calibration_param_def call_def)

text \<open>
  C3, amended. \<open>adc_start_conversion\<close> with a \<open>NULL\<close> configuration returns
  \<open>kStatus_ADC_InvalidArgument\<close> and calls nothing, for every instance number. For an
  instance below \<open>HW_ADC_INSTANCE_COUNT\<close> and a configuration that is not \<open>NULL\<close> it
  disables the conversion of the configured mux and sets the group mux; then, with
  \<open>isInterruptEnabled\<close>, it records the mux in the context of the instance, enables the
  interrupt of the instance and the interrupt of the ADC, and without it disables the
  interrupt of the ADC and the interrupt of the instance; finally it enables the conversion
  on the configured channel and returns \<open>kStatus_ADC_Success\<close>.
\<close>

theorem adc_start_conversion_sequence:
  "adc_start_conversion p inst None s = Inr (kStatus_ADC_InvalidArgument, s)
   \<and> (inst < HW_ADC_INSTANCE_COUNT p \<longrightarrow>
        adc_start_conversion p inst (Some cfg) s =
          Inr (kStatus_ADC_Success,
               s\<lparr>adc_context_internal :=
                    (if isInterruptEnabled cfg
                     then (adc_context_internal s)
                            (inst := (adc_context_internal s inst)\<lparr>muxSelect_ctx := muxSelect cfg\<rparr>)
                     else adc_context_internal s),
                  hal_trace := hal_trace s @
                    [Adc_hal_disable inst (muxSelect cfg),
                     Adc_hal_set_group_mux inst (muxSelect cfg)] @
                    (if isInterruptEnabled cfg
                     then [Interrupt_enable (adc_irq_ids p inst),
                           Adc_hal_configure_interrupt inst (muxSelect cfg) True]
                     else [Adc_hal_configure_interrupt inst (muxSelect cfg) False,
                           Interrupt_disable (adc_irq_ids p inst)]) @
                    [Adc_hal_enable inst (muxSelect cfg) (channelId cfg)
                       (isDifferentialEnabled cfg)]\<rparr>))"
  by (simp add: adc_start_conversion_def adc_get_irq_id_internal_def set_context_def call_def)

theorem adc_start_conversion_sequence_witness:
  "(1 :: uint32_t) < HW_ADC_INSTANCE_COUNT two_adc_platform
   \<and> adc_start_conversion two_adc_platform 1 (Some interrupt_cfg) reset_state =
       Inr (kStatus_ADC_Success,
            \<lparr>adc_context_internal =
               (\<lambda>i. \<lparr>userCallback = 0, muxSelect_ctx = 0, value_ctx = 0\<rparr>)
               (1 := \<lparr>userCallback = 0, muxSelect_ctx = 1, value_ctx = 0\<rparr>),
             hal_trace =
               [Adc_hal_disable 1 1, Adc_hal_set_group_mux 1 1, Interrupt_enable 73,
                Adc_hal_configure_interrupt 1 1 True, Adc_hal_enable 1 1 12 False]\<rparr>)
   \<and> adc_start_conversion two_adc_platform 1 (Some polling_cfg) reset_state =
       Inr (kStatus_ADC_Success,
            \<lparr>adc_context_internal =
               (\<lambda>i. \<lparr>userCallback = 0, muxSelect_ctx = 0, value_ctx = 0\<rparr>),
             hal_trace =
               [Adc_hal_disable 1 0, Adc_hal_set_group_mux 1 0,
                Adc_hal_configure_interrupt 1 0 False, Interrupt_disable 73,
                Adc_hal_enable 1 0 12 False]\<rparr>)"
  using adc_start_conversion_sequence [of two_adc_platform 1 reset_state interrupt_cfg]
    adc_start_conversion_sequence [of two_adc_platform 1 reset_state polling_cfg]
  by (simp add: two_adc_platform_def reset_state_def interrupt_cfg_def polling_cfg_def)

text \<open>
  Without the bound on the instance the statement fails: with two instances, instance
  number 2 stops at the assertion of \<open>adc_get_irq_id_internal\<close> in polling mode, and in
  interrupt mode at the store into \<open>adc_context_internal[2]\<close>, which is outside the array.
\<close>

theorem adc_start_conversion_counterexample:
  "adc_start_conversion two_adc_platform 2 (Some polling_cfg) reset_state = Inl Assert_failed
   \<and> adc_start_conversion two_adc_platform 2 (Some interrupt_cfg) reset_state = Inl Out_of_bounds"
  by (simp add: adc_start_conversion_def adc_get_irq_id_internal_def two_adc_platform_def
      polling_cfg_def interrupt_cfg_def)

text \<open>
  C4. \<open>adc_init\<close> with a \<open>NULL\<close> configuration returns \<open>kStatus_ADC_InvalidArgument\<close> and
  calls nothing. With a configuration it returns \<open>kStatus_ADC_Success\<close> after exactly six
  calls: the clock gate of the ADC is switched on, then one HAL call per member of the
  configuration, in the order clock source, clock divider, reference voltage, resolution,
  continuous conversion, each with the member's value unchanged. This holds for every
  instance number.
\<close>

theorem adc_init_pass_through:
  "adc_init p inst None s = (kStatus_ADC_InvalidArgument, s)
   \<and> adc_init p inst (Some cfg) s =
       (kStatus_ADC_Success,
        s\<lparr>hal_trace := hal_trace s @
           [Clock_manager_set_gate (kClockModuleADC p) inst True,
            Adc_hal_set_clock_source_mode inst (clockSourceMode cfg),
            Adc_hal_set_clock_divider_mode inst (clockSourceDividerMode cfg),
            Adc_hal_set_reference_voltage_mode inst (referenceVoltageMode cfg),
            Adc_hal_set_resolution_mode inst (resolutionMode cfg),
            Adc_hal_configure_continuous_conversion inst (isContinuousEnabled cfg)]\<rparr>)"
  by (simp add: adc_init_def call_def)

text \<open>
  C5. In polling mode, for an instance below \<open>HW_ADC_INSTANCE_COUNT\<close> and a configuration
  that is not \<open>NULL\<close>, \<open>adc_get_conversion_value\<close> returns if and only if the completion
  flag of the configured mux is set at one of the polls: the loop ends whenever the hardware
  completes, and nothing else ends it.
\<close>

theorem polling_returns_iff_completed:
  assumes valid: "inst < HW_ADC_INSTANCE_COUNT p"
    and polling: "\<not> isInterruptEnabled cfg"
  shows "(\<exists>r. adc_get_conversion_value p hw inst (Some cfg) s = Some r) \<longleftrightarrow>
         (\<exists>k. hw_conversion_completed hw (length (hal_trace s) + k) inst (muxSelect cfg))"
proof
  assume "\<exists>r. adc_get_conversion_value p hw inst (Some cfg) s = Some r"
  moreover have "\<not> HW_ADC_INSTANCE_COUNT p \<le> inst"
    using valid by simp
  ultimately obtain s1 where "wait_conversion_completed hw inst (muxSelect cfg) s = Some s1"
    using polling
    by (auto simp: adc_get_conversion_value_def split: option.splits)
  then show "\<exists>k. hw_conversion_completed hw (length (hal_trace s) + k) inst (muxSelect cfg)"
    by (rule wait_only_if_completed)
next
  assume "\<exists>k. hw_conversion_completed hw (length (hal_trace s) + k) inst (muxSelect cfg)"
  then obtain k where
    at: "hw_conversion_completed hw (length (hal_trace s) + k) inst (muxSelect cfg)" and
    before: "\<forall>j<k. \<not> hw_conversion_completed hw (length (hal_trace s) + j) inst (muxSelect cfg)"
    using exists_least_iff
      [of "\<lambda>k. hw_conversion_completed hw (length (hal_trace s) + k) inst (muxSelect cfg)"]
    by blast
  show "\<exists>r. adc_get_conversion_value p hw inst (Some cfg) s = Some r"
    using polling_result [OF valid polling before at] by blast
qed

theorem polling_returns_iff_completed_witness:
  "(0 :: uint32_t) < HW_ADC_INSTANCE_COUNT two_adc_platform
   \<and> \<not> isInterruptEnabled polling_cfg
   \<and> hw_conversion_completed slow_hw (length (hal_trace reset_state) + 2) 0 (muxSelect polling_cfg)
   \<and> (\<exists>r. adc_get_conversion_value two_adc_platform slow_hw 0 (Some polling_cfg) reset_state
          = Some r)
   \<and> adc_get_conversion_value two_adc_platform
        (slow_hw\<lparr>hw_conversion_completed := \<lambda>t i m. False\<rparr>) 0 (Some polling_cfg) reset_state
        = None"
proof -
  have valid: "(0 :: uint32_t) < HW_ADC_INSTANCE_COUNT two_adc_platform"
    by (simp add: two_adc_platform_def)
  have polling: "\<not> isInterruptEnabled polling_cfg"
    by (simp add: polling_cfg_def)
  have at: "hw_conversion_completed slow_hw (length (hal_trace reset_state) + 2) 0
      (muxSelect polling_cfg)"
    by (simp add: slow_hw_def)
  then have "\<exists>r. adc_get_conversion_value two_adc_platform slow_hw 0 (Some polling_cfg)
      reset_state = Some r"
    using polling_returns_iff_completed [OF valid polling, of slow_hw reset_state] by blast
  moreover have "adc_get_conversion_value two_adc_platform
        (slow_hw\<lparr>hw_conversion_completed := \<lambda>t i m. False\<rparr>) 0 (Some polling_cfg) reset_state
        = None"
  proof (rule ccontr)
    assume "adc_get_conversion_value two_adc_platform
        (slow_hw\<lparr>hw_conversion_completed := \<lambda>t i m. False\<rparr>) 0 (Some polling_cfg) reset_state
        \<noteq> None"
    then have "\<exists>r. adc_get_conversion_value two_adc_platform
        (slow_hw\<lparr>hw_conversion_completed := \<lambda>t i m. False\<rparr>) 0 (Some polling_cfg) reset_state
        = Some r"
      by blast
    then show False
      using polling_returns_iff_completed [OF valid polling,
          of "slow_hw\<lparr>hw_conversion_completed := \<lambda>t i m. False\<rparr>" reset_state]
      by simp
  qed
  ultimately show ?thesis
    using valid polling at by blast
qed

text \<open>
  C8. \<open>adc_get_conversion_value\<close> returns 0, calls nothing and leaves the context alone
  when the instance is not below \<open>HW_ADC_INSTANCE_COUNT\<close> or the configuration is \<open>NULL\<close>.
  The same 0 is returned for valid arguments when the conversion result is 0, in polling mode
  and in interrupt mode. The other reading function, \<open>adc_is_conversion_completed\<close>, answers
  \<open>false\<close> for a \<open>NULL\<close> configuration, as it does for a conversion that has not
  completed.
\<close>

theorem adc_get_conversion_value_invalid_is_zero:
  "(HW_ADC_INSTANCE_COUNT p \<le> inst \<or> channelCfgPtr = None \<longrightarrow>
      adc_get_conversion_value p hw inst channelCfgPtr s = Some (0, s))
   \<and> (inst < HW_ADC_INSTANCE_COUNT p \<longrightarrow> \<not> isInterruptEnabled cfg \<longrightarrow>
        hw_conversion_completed hw (length (hal_trace s)) inst (muxSelect cfg) \<longrightarrow>
        hw_conversion_value hw (Suc (length (hal_trace s))) inst (muxSelect cfg) = 0 \<longrightarrow>
        (\<exists>s'. adc_get_conversion_value p hw inst (Some cfg) s = Some (0, s')))
   \<and> (inst < HW_ADC_INSTANCE_COUNT p \<longrightarrow> isInterruptEnabled cfg \<longrightarrow>
        value_ctx (adc_context_internal s inst) = 0 \<longrightarrow>
        adc_get_conversion_value p hw inst (Some cfg) s = Some (0, s))
   \<and> adc_is_conversion_completed hw inst None s = (False, s)
   \<and> (\<not> hw_conversion_completed hw (length (hal_trace s)) inst (muxSelect cfg) \<longrightarrow>
        fst (adc_is_conversion_completed hw inst (Some cfg) s) = False)"
proof (intro conjI impI)
  assume "HW_ADC_INSTANCE_COUNT p \<le> inst \<or> channelCfgPtr = None"
  then show "adc_get_conversion_value p hw inst channelCfgPtr s = Some (0, s)"
    by (simp add: adc_get_conversion_value_def)
next
  assume valid: "inst < HW_ADC_INSTANCE_COUNT p" and polling: "\<not> isInterruptEnabled cfg"
    and "hw_conversion_completed hw (length (hal_trace s)) inst (muxSelect cfg)"
    and zero: "hw_conversion_value hw (Suc (length (hal_trace s))) inst (muxSelect cfg) = 0"
  then have at: "hw_conversion_completed hw (length (hal_trace s) + 0) inst (muxSelect cfg)"
    and before: "\<forall>j<0. \<not> hw_conversion_completed hw (length (hal_trace s) + j) inst (muxSelect cfg)"
    by simp_all
  show "\<exists>s'. adc_get_conversion_value p hw inst (Some cfg) s = Some (0, s')"
    using polling_result [OF valid polling before at] zero by simp
next
  assume "inst < HW_ADC_INSTANCE_COUNT p" and "isInterruptEnabled cfg"
    and "value_ctx (adc_context_internal s inst) = 0"
  then show "adc_get_conversion_value p hw inst (Some cfg) s = Some (0, s)"
    by (simp add: adc_get_conversion_value_def)
next
  show "adc_is_conversion_completed hw inst None s = (False, s)"
    by (simp add: adc_is_conversion_completed_def)
next
  assume "\<not> hw_conversion_completed hw (length (hal_trace s)) inst (muxSelect cfg)"
  then show "fst (adc_is_conversion_completed hw inst (Some cfg) s) = False"
    by (simp add: adc_is_conversion_completed_def adc_hal_is_conversion_completed_def)
qed

theorem adc_get_conversion_value_invalid_is_zero_witness:
  "HW_ADC_INSTANCE_COUNT two_adc_platform \<le> 2
   \<and> adc_get_conversion_value two_adc_platform slow_hw 2 (Some polling_cfg) reset_state =
       Some (0, reset_state)
   \<and> adc_get_conversion_value two_adc_platform slow_hw 0 None reset_state =
       Some (0, reset_state)
   \<and> (0 :: uint32_t) < HW_ADC_INSTANCE_COUNT two_adc_platform
   \<and> \<not> isInterruptEnabled polling_cfg
   \<and> (\<exists>s'. adc_get_conversion_value two_adc_platform
               (slow_hw\<lparr>hw_conversion_value := \<lambda>t i m. 0,
                         hw_conversion_completed := \<lambda>t i m. True\<rparr>)
               0 (Some polling_cfg) reset_state = Some (0, s'))
   \<and> isInterruptEnabled interrupt_cfg
   \<and> adc_get_conversion_value two_adc_platform slow_hw 0 (Some interrupt_cfg) reset_state =
       Some (0, reset_state)
   \<and> \<not> hw_conversion_completed slow_hw (length (hal_trace reset_state)) 0 (muxSelect polling_cfg)
   \<and> fst (adc_is_conversion_completed slow_hw 0 (Some polling_cfg) reset_state) = False
   \<and> adc_is_conversion_completed slow_hw 0 None reset_state = (False, reset_state)"
  using adc_get_conversion_value_invalid_is_zero
      [of two_adc_platform 2 "Some polling_cfg" slow_hw reset_state polling_cfg]
    adc_get_conversion_value_invalid_is_zero
      [of two_adc_platform 0 None slow_hw reset_state interrupt_cfg]
    adc_get_conversion_value_invalid_is_zero
      [of two_adc_platform 0 None
        "slow_hw\<lparr>hw_conversion_value := \<lambda>t i m. 0, hw_conversion_completed := \<lambda>t i m. True\<rparr>"
        reset_state polling_cfg]
    adc_get_conversion_value_invalid_is_zero
      [of two_adc_platform 0 None slow_hw reset_state polling_cfg]
  by (simp add: two_adc_platform_def polling_cfg_def interrupt_cfg_def slow_hw_def
      reset_state_def)

text \<open>
  C9. \<open>adc_get_calibration_param\<close> does not check \<open>paramPtr\<close>: when the calibration has
  started (the HAL did not answer \<open>kStatus_ADC_Failed\<close>), a \<open>NULL\<close> pointer is
  dereferenced, and a pointer that is not \<open>NULL\<close> receives the two calibration values; when
  the start fails, the function returns \<open>kStatus_ADC_Failed\<close> without touching the pointer.
  \<open>adc_set_calibration_param\<close> checks: a \<open>NULL\<close> pointer gives
  \<open>kStatus_ADC_InvalidArgument\<close> and no call.
\<close>

theorem adc_get_calibration_param_unchecked_pointer:
  "(hw_start_calibration hw (length (hal_trace s)) inst \<noteq> kStatus_ADC_Failed \<longrightarrow>
      adc_get_calibration_param hw inst None s = Inl Null_dereference
      \<and> adc_get_calibration_param hw inst (Some param) s =
          Inr (kStatus_ADC_Success,
               Some (param\<lparr>PG := hw_calibration_PG hw (length (hal_trace s) + 1) inst,
                           MG := hw_calibration_MG hw (length (hal_trace s) + 2) inst\<rparr>),
               s\<lparr>hal_trace := hal_trace s @
                  [Adc_hal_start_calibration inst, Adc_hal_get_calibration_PG inst,
                   Adc_hal_get_calibration_MG inst, Adc_hal_get_conversion_value inst 0,
                   Adc_hal_end_calibration inst]\<rparr>))
   \<and> (hw_start_calibration hw (length (hal_trace s)) inst = kStatus_ADC_Failed \<longrightarrow>
        adc_get_calibration_param hw inst paramPtr s =
          Inr (kStatus_ADC_Failed, paramPtr,
               s\<lparr>hal_trace := hal_trace s @ [Adc_hal_start_calibration inst]\<rparr>))
   \<and> adc_set_calibration_param inst None s = (kStatus_ADC_InvalidArgument, s)
   \<and> adc_set_calibration_param inst (Some param) s =
       (kStatus_ADC_Success,
        s\<lparr>hal_trace := hal_trace s @
           [Adc_hal_set_calibration_PG inst (PG param),
            Adc_hal_set_calibration_MG inst (MG param)]\<rparr>)"
proof (intro conjI impI)
  assume started: "hw_start_calibration hw (length (hal_trace s)) inst \<noteq> kStatus_ADC_Failed"
  then show "adc_get_calibration_param hw inst None s = Inl Null_dereference"
    by (auto simp: adc_get_calibration_param_def adc_hal_start_calibration_def
        adc_hal_get_calibration_PG_def)
  show "adc_get_calibration_param hw inst (Some param) s =
          Inr (kStatus_ADC_Success,
               Some (param\<lparr>PG := hw_calibration_PG hw (length (hal_trace s) + 1) inst,
                           MG := hw_calibration_MG hw (length (hal_trace s) + 2) inst\<rparr>),
               s\<lparr>hal_trace := hal_trace s @
                  [Adc_hal_start_calibration inst, Adc_hal_get_calibration_PG inst,
                   Adc_hal_get_calibration_MG inst, Adc_hal_get_conversion_value inst 0,
                   Adc_hal_end_calibration inst]\<rparr>)"
    by (rule adc_get_calibration_param_started [OF started])
next
  assume "hw_start_calibration hw (length (hal_trace s)) inst = kStatus_ADC_Failed"
  then show "adc_get_calibration_param hw inst paramPtr s =
          Inr (kStatus_ADC_Failed, paramPtr,
               s\<lparr>hal_trace := hal_trace s @ [Adc_hal_start_calibration inst]\<rparr>)"
    by (rule adc_get_calibration_param_failed)
next
  show "adc_set_calibration_param inst None s = (kStatus_ADC_InvalidArgument, s)"
    by (simp add: adc_set_calibration_param_def)
  show "adc_set_calibration_param inst (Some param) s =
       (kStatus_ADC_Success,
        s\<lparr>hal_trace := hal_trace s @
           [Adc_hal_set_calibration_PG inst (PG param),
            Adc_hal_set_calibration_MG inst (MG param)]\<rparr>)"
    by (simp add: adc_set_calibration_param_def call_def)
qed

theorem adc_get_calibration_param_unchecked_pointer_witness:
  "hw_start_calibration slow_hw (length (hal_trace reset_state)) 0 \<noteq> kStatus_ADC_Failed
   \<and> adc_get_calibration_param slow_hw 0 None reset_state = Inl Null_dereference
   \<and> adc_get_calibration_param slow_hw 0 (Some \<lparr>PG = 0, MG = 0\<rparr>) reset_state =
       Inr (kStatus_ADC_Success, Some \<lparr>PG = 0x8200, MG = 0x8100\<rparr>,
            reset_state\<lparr>hal_trace :=
              [Adc_hal_start_calibration 0, Adc_hal_get_calibration_PG 0,
               Adc_hal_get_calibration_MG 0, Adc_hal_get_conversion_value 0 0,
               Adc_hal_end_calibration 0]\<rparr>)
   \<and> hw_start_calibration (slow_hw\<lparr>hw_start_calibration := \<lambda>t i. kStatus_ADC_Failed\<rparr>)
        (length (hal_trace reset_state)) 0 = kStatus_ADC_Failed
   \<and> adc_get_calibration_param (slow_hw\<lparr>hw_start_calibration := \<lambda>t i. kStatus_ADC_Failed\<rparr>)
        0 None reset_state =
       Inr (kStatus_ADC_Failed, None, reset_state\<lparr>hal_trace := [Adc_hal_start_calibration 0]\<rparr>)
   \<and> adc_set_calibration_param 0 None reset_state = (kStatus_ADC_InvalidArgument, reset_state)"
  using adc_get_calibration_param_unchecked_pointer
      [of slow_hw reset_state 0 "\<lparr>PG = 0, MG = 0\<rparr>" None]
    adc_get_calibration_param_unchecked_pointer
      [of "slow_hw\<lparr>hw_start_calibration := \<lambda>t i. kStatus_ADC_Failed\<rparr>" reset_state 0
        "\<lparr>PG = 0, MG = 0\<rparr>" None]
  by (simp add: slow_hw_def reset_state_def)

text \<open>
  C10. \<open>adc_auto_calibration\<close> switches hardware averaging on, with count 32, before it
  calibrates. When the calibration fails to start, the function returns
  \<open>kStatus_ADC_Failed\<close> after these calls and hardware averaging is still on; only when the
  calibration succeeds is the last call the one that switches hardware averaging off.
\<close>

theorem adc_auto_calibration_failure_leaves_hw_average:
  "(hw_start_calibration hw (length (hal_trace s) + 8) inst = kStatus_ADC_Failed \<longrightarrow>
      adc_auto_calibration p hw inst paramPtr s =
        Inr (kStatus_ADC_Failed, paramPtr,
             s\<lparr>hal_trace := hal_trace s @
                [Clock_manager_set_gate (kClockModuleADC p) inst True,
                 Adc_hal_set_clock_source_mode inst (kAdcClockSourceBusClk2 p),
                 Adc_hal_set_clock_divider_mode inst (kAdcClockDivider8 p),
                 Adc_hal_set_reference_voltage_mode inst (kAdcVoltageVref p),
                 Adc_hal_set_resolution_mode inst (kAdcSingleDiff16 p),
                 Adc_hal_configure_continuous_conversion inst False,
                 Adc_hal_configure_hw_average inst True,
                 Adc_hal_set_hw_average_mode inst (kAdcHwAverageCount32 p),
                 Adc_hal_start_calibration inst]\<rparr>)
      \<and> hw_average_enabled inst
           (s\<lparr>hal_trace := hal_trace s @
                [Clock_manager_set_gate (kClockModuleADC p) inst True,
                 Adc_hal_set_clock_source_mode inst (kAdcClockSourceBusClk2 p),
                 Adc_hal_set_clock_divider_mode inst (kAdcClockDivider8 p),
                 Adc_hal_set_reference_voltage_mode inst (kAdcVoltageVref p),
                 Adc_hal_set_resolution_mode inst (kAdcSingleDiff16 p),
                 Adc_hal_configure_continuous_conversion inst False,
                 Adc_hal_configure_hw_average inst True,
                 Adc_hal_set_hw_average_mode inst (kAdcHwAverageCount32 p),
                 Adc_hal_start_calibration inst]\<rparr>) = Some True)
   \<and> (hw_start_calibration hw (length (hal_trace s) + 8) inst \<noteq> kStatus_ADC_Failed \<longrightarrow>
        adc_auto_calibration p hw inst (Some param) s =
          Inr (kStatus_ADC_Success,
               Some (param\<lparr>PG := hw_calibration_PG hw (length (hal_trace s) + 9) inst,
                           MG := hw_calibration_MG hw (length (hal_trace s) + 10) inst\<rparr>),
               s\<lparr>hal_trace := hal_trace s @
                  [Clock_manager_set_gate (kClockModuleADC p) inst True,
                   Adc_hal_set_clock_source_mode inst (kAdcClockSourceBusClk2 p),
                   Adc_hal_set_clock_divider_mode inst (kAdcClockDivider8 p),
                   Adc_hal_set_reference_voltage_mode inst (kAdcVoltageVref p),
                   Adc_hal_set_resolution_mode inst (kAdcSingleDiff16 p),
                   Adc_hal_configure_continuous_conversion inst False,
                   Adc_hal_configure_hw_average inst True,
                   Adc_hal_set_hw_average_mode inst (kAdcHwAverageCount32 p),
                   Adc_hal_start_calibration inst,
                   Adc_hal_get_calibration_PG inst,
                   Adc_hal_get_calibration_MG inst,
                   Adc_hal_get_conversion_value inst 0,
                   Adc_hal_end_calibration inst,
                   Adc_hal_set_calibration_PG inst
                     (hw_calibration_PG hw (length (hal_trace s) + 9) inst),
                   Adc_hal_set_calibration_MG inst
                     (hw_calibration_MG hw (length (hal_trace s) + 10) inst),
                   Adc_hal_configure_hw_average inst False]\<rparr>)
        \<and> hw_average_enabled inst
           (s\<lparr>hal_trace := hal_trace s @
                  [Clock_manager_set_gate (kClockModuleADC p) inst True,
                   Adc_hal_set_clock_source_mode inst (kAdcClockSourceBusClk2 p),
                   Adc_hal_set_clock_divider_mode inst (kAdcClockDivider8 p),
                   Adc_hal_set_reference_voltage_mode inst (kAdcVoltageVref p),
                   Adc_hal_set_resolution_mode inst (kAdcSingleDiff16 p),
                   Adc_hal_configure_continuous_conversion inst False,
                   Adc_hal_configure_hw_average inst True,
                   Adc_hal_set_hw_average_mode inst (kAdcHwAverageCount32 p),
                   Adc_hal_start_calibration inst,
                   Adc_hal_get_calibration_PG inst,
                   Adc_hal_get_calibration_MG inst,
                   Adc_hal_get_conversion_value inst 0,
                   Adc_hal_end_calibration inst,
                   Adc_hal_set_calibration_PG inst
                     (hw_calibration_PG hw (length (hal_trace s) + 9) inst),
                   Adc_hal_set_calibration_MG inst
                     (hw_calibration_MG hw (length (hal_trace s) + 10) inst),
                   Adc_hal_configure_hw_average inst False]\<rparr>) = Some False)"
proof -
  let ?pre = "[Clock_manager_set_gate (kClockModuleADC p) inst True,
               Adc_hal_set_clock_source_mode inst (kAdcClockSourceBusClk2 p),
               Adc_hal_set_clock_divider_mode inst (kAdcClockDivider8 p),
               Adc_hal_set_reference_voltage_mode inst (kAdcVoltageVref p),
               Adc_hal_set_resolution_mode inst (kAdcSingleDiff16 p),
               Adc_hal_configure_continuous_conversion inst False,
               Adc_hal_configure_hw_average inst True,
               Adc_hal_set_hw_average_mode inst (kAdcHwAverageCount32 p)]"
  let ?s3 = "s\<lparr>hal_trace := hal_trace s @ ?pre\<rparr>"
  have len: "length (hal_trace ?s3) = length (hal_trace s) + 8"
    by simp
  have unfold: "adc_auto_calibration p hw inst ptr s =
      (case adc_get_calibration_param hw inst ptr ?s3 of
         Inl e \<Rightarrow> Inl e
       | Inr (st', paramPtr', s4) \<Rightarrow>
           if kStatus_ADC_Success \<noteq> st' then Inr (kStatus_ADC_Failed, paramPtr', s4)
           else
             (let (st'', s5) = adc_set_calibration_param inst paramPtr' s4;
                  s6 = call (Adc_hal_configure_hw_average inst False) s5
              in Inr (kStatus_ADC_Success, paramPtr', s6)))" for ptr
    by (simp add: adc_auto_calibration_def adc_init_Some call_def)
  show ?thesis
  proof (intro conjI impI)
    assume "hw_start_calibration hw (length (hal_trace s) + 8) inst = kStatus_ADC_Failed"
    then have "hw_start_calibration hw (length (hal_trace ?s3)) inst = kStatus_ADC_Failed"
      unfolding len .
    from adc_get_calibration_param_failed [OF this]
    show "adc_auto_calibration p hw inst paramPtr s =
        Inr (kStatus_ADC_Failed, paramPtr,
             s\<lparr>hal_trace := hal_trace s @
                [Clock_manager_set_gate (kClockModuleADC p) inst True,
                 Adc_hal_set_clock_source_mode inst (kAdcClockSourceBusClk2 p),
                 Adc_hal_set_clock_divider_mode inst (kAdcClockDivider8 p),
                 Adc_hal_set_reference_voltage_mode inst (kAdcVoltageVref p),
                 Adc_hal_set_resolution_mode inst (kAdcSingleDiff16 p),
                 Adc_hal_configure_continuous_conversion inst False,
                 Adc_hal_configure_hw_average inst True,
                 Adc_hal_set_hw_average_mode inst (kAdcHwAverageCount32 p),
                 Adc_hal_start_calibration inst]\<rparr>)"
      by (simp add: unfold)
  next
    assume "hw_start_calibration hw (length (hal_trace s) + 8) inst \<noteq> kStatus_ADC_Failed"
    from adc_get_calibration_param_started_at [OF len this]
    show "adc_auto_calibration p hw inst (Some param) s =
          Inr (kStatus_ADC_Success,
               Some (param\<lparr>PG := hw_calibration_PG hw (length (hal_trace s) + 9) inst,
                           MG := hw_calibration_MG hw (length (hal_trace s) + 10) inst\<rparr>),
               s\<lparr>hal_trace := hal_trace s @
                  [Clock_manager_set_gate (kClockModuleADC p) inst True,
                   Adc_hal_set_clock_source_mode inst (kAdcClockSourceBusClk2 p),
                   Adc_hal_set_clock_divider_mode inst (kAdcClockDivider8 p),
                   Adc_hal_set_reference_voltage_mode inst (kAdcVoltageVref p),
                   Adc_hal_set_resolution_mode inst (kAdcSingleDiff16 p),
                   Adc_hal_configure_continuous_conversion inst False,
                   Adc_hal_configure_hw_average inst True,
                   Adc_hal_set_hw_average_mode inst (kAdcHwAverageCount32 p),
                   Adc_hal_start_calibration inst,
                   Adc_hal_get_calibration_PG inst,
                   Adc_hal_get_calibration_MG inst,
                   Adc_hal_get_conversion_value inst 0,
                   Adc_hal_end_calibration inst,
                   Adc_hal_set_calibration_PG inst
                     (hw_calibration_PG hw (length (hal_trace s) + 9) inst),
                   Adc_hal_set_calibration_MG inst
                     (hw_calibration_MG hw (length (hal_trace s) + 10) inst),
                   Adc_hal_configure_hw_average inst False]\<rparr>)"
      by (simp add: unfold adc_set_calibration_param_def call_def add.commute)
  qed (simp_all add: hw_average_enabled_def)
qed

theorem adc_auto_calibration_failure_leaves_hw_average_witness:
  "hw_start_calibration (slow_hw\<lparr>hw_start_calibration := \<lambda>t i. kStatus_ADC_Failed\<rparr>)
        (length (hal_trace reset_state) + 8) 0 = kStatus_ADC_Failed
   \<and> adc_auto_calibration two_adc_platform
        (slow_hw\<lparr>hw_start_calibration := \<lambda>t i. kStatus_ADC_Failed\<rparr>) 0
        (Some \<lparr>PG = 0, MG = 0\<rparr>) reset_state =
       Inr (kStatus_ADC_Failed, Some \<lparr>PG = 0, MG = 0\<rparr>,
            reset_state\<lparr>hal_trace :=
              [Clock_manager_set_gate 0 0 True, Adc_hal_set_clock_source_mode 0 1,
               Adc_hal_set_clock_divider_mode 0 3, Adc_hal_set_reference_voltage_mode 0 0,
               Adc_hal_set_resolution_mode 0 3, Adc_hal_configure_continuous_conversion 0 False,
               Adc_hal_configure_hw_average 0 True, Adc_hal_set_hw_average_mode 0 3,
               Adc_hal_start_calibration 0]\<rparr>)
   \<and> hw_average_enabled 0
        (reset_state\<lparr>hal_trace :=
              [Clock_manager_set_gate 0 0 True, Adc_hal_set_clock_source_mode 0 1,
               Adc_hal_set_clock_divider_mode 0 3, Adc_hal_set_reference_voltage_mode 0 0,
               Adc_hal_set_resolution_mode 0 3, Adc_hal_configure_continuous_conversion 0 False,
               Adc_hal_configure_hw_average 0 True, Adc_hal_set_hw_average_mode 0 3,
               Adc_hal_start_calibration 0]\<rparr>) = Some True
   \<and> hw_start_calibration slow_hw (length (hal_trace reset_state) + 8) 0 \<noteq> kStatus_ADC_Failed
   \<and> adc_auto_calibration two_adc_platform slow_hw 0 (Some \<lparr>PG = 0, MG = 0\<rparr>) reset_state =
       Inr (kStatus_ADC_Success, Some \<lparr>PG = 0x8200, MG = 0x8100\<rparr>,
            reset_state\<lparr>hal_trace :=
              [Clock_manager_set_gate 0 0 True, Adc_hal_set_clock_source_mode 0 1,
               Adc_hal_set_clock_divider_mode 0 3, Adc_hal_set_reference_voltage_mode 0 0,
               Adc_hal_set_resolution_mode 0 3, Adc_hal_configure_continuous_conversion 0 False,
               Adc_hal_configure_hw_average 0 True, Adc_hal_set_hw_average_mode 0 3,
               Adc_hal_start_calibration 0, Adc_hal_get_calibration_PG 0,
               Adc_hal_get_calibration_MG 0, Adc_hal_get_conversion_value 0 0,
               Adc_hal_end_calibration 0, Adc_hal_set_calibration_PG 0 0x8200,
               Adc_hal_set_calibration_MG 0 0x8100, Adc_hal_configure_hw_average 0 False]\<rparr>)"
  using adc_auto_calibration_failure_leaves_hw_average
      [of "slow_hw\<lparr>hw_start_calibration := \<lambda>t i. kStatus_ADC_Failed\<rparr>" reset_state 0
        two_adc_platform "Some \<lparr>PG = 0, MG = 0\<rparr>" "\<lparr>PG = 0, MG = 0\<rparr>"]
    adc_auto_calibration_failure_leaves_hw_average
      [of slow_hw reset_state 0 two_adc_platform "Some \<lparr>PG = 0, MG = 0\<rparr>" "\<lparr>PG = 0, MG = 0\<rparr>"]
  by (simp add: slow_hw_def reset_state_def two_adc_platform_def)

end
